theory Spec2Isabelle
  imports Complex_Main "HOL-Library.Word" "HOL-Library.Multiset" "HOL-Library.Product_Lexorder"
begin

section \<open>JavaScript strings\<close>

text \<open>
  A JavaScript string is a sequence of 16-bit code units. ASCII literals of the source are
  written \<open>lit ''...''\<close>; the emoji of the source are written as their UTF-16 code units.
\<close>

type_synonym jsstring = "16 word list"

definition lit :: "string \<Rightarrow> jsstring" where
  "lit cs = map (\<lambda>c. of_nat (of_char c)) cs"

definition dot :: "16 word" where
  "dot = 46"

definition newline :: "16 word" where
  "newline = 10"

text \<open>
  \<open>WhiteSpace\<close> and \<open>LineTerminator\<close> of ECMAScript: what \<open>String.prototype.trim\<close>
  strips and what \<open>Number\<close> skips around a numeric literal.
\<close>

definition isWhiteSpace :: "16 word \<Rightarrow> bool" where
  "isWhiteSpace c =
     (let u = unat c in
        (9 \<le> u \<and> u \<le> 13) \<or> u = 32 \<or> u = 160 \<or> u = 5760 \<or> (8192 \<le> u \<and> u \<le> 8202)
        \<or> u = 8232 \<or> u = 8233 \<or> u = 8239 \<or> u = 8287 \<or> u = 12288 \<or> u = 65279)"

definition trim :: "jsstring \<Rightarrow> jsstring" where
  "trim s = rev (dropWhile isWhiteSpace (rev (dropWhile isWhiteSpace s)))"

text \<open>\<open>s.split(sep)\<close> for a separator of one code unit; \<open>"".split(sep)\<close> is \<open>[""]\<close>.\<close>

fun splitOn :: "'a \<Rightarrow> 'a list \<Rightarrow> 'a list list" where
  "splitOn sep [] = [[]]"
| "splitOn sep (c # cs) =
     (if c = sep then [] # splitOn sep cs
      else (case splitOn sep cs of [] \<Rightarrow> [[c]] | p # ps \<Rightarrow> (c # p) # ps))"

text \<open>\<open>xs.join(sep)\<close> for a separator of one code unit.\<close>

fun joinWith :: "'a \<Rightarrow> 'a list list \<Rightarrow> 'a list" where
  "joinWith sep [] = []"
| "joinWith sep [x] = x"
| "joinWith sep (x # y # ys) = x @ sep # joinWith sep (y # ys)"

definition isDigit :: "16 word \<Rightarrow> bool" where
  "isDigit c = (48 \<le> unat c \<and> unat c \<le> 57)"

definition digitChar :: "nat \<Rightarrow> 16 word" where
  "digitChar d = of_nat (48 + d)"

text \<open>The decimal digits of a natural number, most significant first, no leading zero.\<close>

fun decimal :: "nat \<Rightarrow> jsstring" where
  "decimal n = (if n < 10 then [digitChar n] else decimal (n div 10) @ [digitChar (n mod 10)])"

declare decimal.simps [simp del]

text \<open>The value of a string of digits in base \<open>b\<close>; letters count from 10, in either case.\<close>

definition digitVal :: "16 word \<Rightarrow> nat" where
  "digitVal c =
     (let u = unat c in
        if 48 \<le> u \<and> u \<le> 57 then u - 48
        else if 97 \<le> u \<and> u \<le> 122 then u - 87
        else if 65 \<le> u \<and> u \<le> 90 then u - 55
        else 36)"

definition digitsValue :: "nat \<Rightarrow> jsstring \<Rightarrow> nat" where
  "digitsValue b s = foldl (\<lambda>acc c. b * acc + digitVal c) 0 s"

section \<open>JavaScript numbers\<close>

text \<open>
  The values a field of \<open>Version\<close> holds at run time: \<open>undefined\<close> (a destructured
  array element that is not there) or a number, which is an IEEE 754 double: \<open>NaN\<close>, an
  infinity, or a finite double, kept as the rational it denotes (the two zeros are one
  value here: the program never divides by a version component and prints both as 0).
\<close>

datatype jsval = Undefined | NaN | Fin rat | PosInf | NegInf

definition negate :: "jsval \<Rightarrow> jsval" where
  "negate v = (case v of Fin q \<Rightarrow> Fin (- q) | PosInf \<Rightarrow> NegInf | NegInf \<Rightarrow> PosInf | _ \<Rightarrow> NaN)"

text \<open>\<open>x * 10^e\<close> for an integer exponent.\<close>

definition scale10 :: "int \<Rightarrow> rat \<Rightarrow> rat" where
  "scale10 e x = (if 0 \<le> e then x * 10 ^ nat e else x / 10 ^ nat (- e))"

definition scale2 :: "int \<Rightarrow> rat \<Rightarrow> rat" where
  "scale2 e x = (if 0 \<le> e then x * 2 ^ nat e else x / 2 ^ nat (- e))"

text \<open>
  \<open>shiftsBelow b fuel q\<close>: how many times a positive \<open>q < 1\<close> must be multiplied by \<open>b\<close> to
  reach 1 (at most \<open>fuel\<close>). \<open>bitlen n\<close>: the number of binary digits of \<open>n\<close>.
\<close>

fun shiftsBelow :: "rat \<Rightarrow> nat \<Rightarrow> rat \<Rightarrow> nat" where
  "shiftsBelow b 0 q = 0"
| "shiftsBelow b (Suc fuel) q = (if 1 \<le> q then 0 else Suc (shiftsBelow b fuel (b * q)))"

fun bitlen :: "nat \<Rightarrow> nat" where
  "bitlen n = (if n = 0 then 0 else Suc (bitlen (n div 2)))"

declare bitlen.simps [simp del]

text \<open>\<open>ilog2 q\<close> is the \<open>L\<close> with \<open>2^L \<le> q < 2^(L+1)\<close>, for \<open>q > 0\<close> (not below -1100).\<close>

definition ilog2 :: "rat \<Rightarrow> int" where
  "ilog2 q = (if 1 \<le> q then int (bitlen (nat \<lfloor>q\<rfloor>)) - 1 else - int (shiftsBelow 2 1100 q))"

text \<open>
  Rounding a real to the nearest double, ties to the even significand (IEEE 754
  roundTiesToEven, as ECMAScript prescribes for every arithmetic result and for numeric
  literals). Integers up to \<open>2^53\<close> are doubles. Beyond, the significand has 53 bits, the
  least exponent is -1074, and a result of \<open>2^1024\<close> or more is infinite.
\<close>

definition roundPos :: "rat \<Rightarrow> jsval" where
  "roundPos q =
     (if q = of_int \<lfloor>q\<rfloor> \<and> q \<le> 2 ^ 53 then Fin q
      else
        let e = max (ilog2 q - 52) (- 1074);
            m = scale2 (- e) q;
            f = \<lfloor>m\<rfloor>;
            r = m - of_int f;
            g = (if 1 / 2 < r \<or> (r = 1 / 2 \<and> odd f) then f + 1 else f);
            v = scale2 e (of_int g)
        in if 2 ^ 1024 \<le> v then PosInf else Fin v)"

definition roundDouble :: "rat \<Rightarrow> jsval" where
  "roundDouble q = (if q < 0 then negate (roundPos (- q)) else roundPos q)"

subsection \<open>\<open>Number(string)\<close>\<close>

definition isDigitOf :: "nat \<Rightarrow> 16 word \<Rightarrow> bool" where
  "isDigitOf b c = (digitVal c < b)"

text \<open>\<open>0x\<close>, \<open>0o\<close> and \<open>0b\<close> literals (no sign allowed).\<close>

definition nonDecimal :: "jsstring \<Rightarrow> nat option" where
  "nonDecimal t =
     (case t of
        z # p # ds \<Rightarrow>
          (let u = unat p;
               b = (if u = 120 \<or> u = 88 then 16 else if u = 111 \<or> u = 79 then 8
                    else if u = 98 \<or> u = 66 then 2 else (0::nat))
           in if unat z = 48 \<and> b \<noteq> 0 \<and> ds \<noteq> [] \<and> list_all (isDigitOf b) ds
              then Some (digitsValue b ds) else None)
      | _ \<Rightarrow> None)"

text \<open>The exponent part: nothing, or \<open>e\<close>/\<open>E\<close>, an optional sign and digits.\<close>

definition exponentPart :: "jsstring \<Rightarrow> int option" where
  "exponentPart r =
     (case r of
        [] \<Rightarrow> Some 0
      | c # ds \<Rightarrow>
          if unat c = 101 \<or> unat c = 69 then
            (case ds of
               [] \<Rightarrow> None
             | s # ds' \<Rightarrow>
                 let body = (if unat s = 43 \<or> unat s = 45 then ds' else ds)
                 in if body \<noteq> [] \<and> list_all isDigit body
                    then Some ((if unat s = 45 then - 1 else 1) * int (digitsValue 10 body))
                    else None)
          else None)"

definition unsignedDecimal :: "jsstring \<Rightarrow> jsval" where
  "unsignedDecimal u =
     (if u = lit ''Infinity'' then PosInf
      else
        let ip = takeWhile isDigit u;
            r1 = dropWhile isDigit u;
            hasDot = (r1 \<noteq> [] \<and> hd r1 = dot);
            fp = (if hasDot then takeWhile isDigit (tl r1) else []);
            r2 = (if hasDot then dropWhile isDigit (tl r1) else r1)
        in if ip = [] \<and> fp = [] then NaN
           else (case exponentPart r2 of
                   None \<Rightarrow> NaN
                 | Some e \<Rightarrow>
                     roundDouble (scale10 (e - int (length fp)) (of_nat (digitsValue 10 (ip @ fp))))))"

definition Number_js :: "jsstring \<Rightarrow> jsval" where
  "Number_js s =
     (let t = trim s in
        if t = [] then Fin 0
        else (case nonDecimal t of
                Some n \<Rightarrow> roundDouble (of_nat n)
              | None \<Rightarrow>
                  if unat (hd t) = 43 then unsignedDecimal (tl t)
                  else if unat (hd t) = 45 then negate (unsignedDecimal (tl t))
                  else unsignedDecimal t))"

subsection \<open>Number to string, as a template literal converts\<close>

text \<open>
  \<open>Number::toString\<close>: the shortest decimal \<open>s * 10^(n-k)\<close> (\<open>s\<close> of \<open>k\<close> digits) that rounds
  to the double, the closest to it among those. An integer up to \<open>2^53\<close> is printed with
  all its digits.
\<close>

definition decExp :: "rat \<Rightarrow> int" where
  "decExp v = (if 1 \<le> v then int (length (decimal (nat \<lfloor>v\<rfloor>))) else 1 - int (shiftsBelow 10 400 v))"

definition candidates :: "rat \<Rightarrow> nat \<Rightarrow> int \<Rightarrow> (int \<times> int) list" where
  "candidates v k n =
     (let f = \<lfloor>scale10 (int k - n) v\<rfloor>
      in map (\<lambda>s. (s, n))
           (filter (\<lambda>s. 10 ^ (k - 1) \<le> s \<and> s < 10 ^ k
                        \<and> roundDouble (scale10 (n - int k) (of_int s)) = Fin v)
              [f, f + 1]))"

definition closest :: "rat \<Rightarrow> nat \<Rightarrow> (int \<times> int) list \<Rightarrow> (int \<times> int) option" where
  "closest v k cs =
     (let dist = (\<lambda>(s, n). \<bar>scale10 (n - int k) (of_int s) - v\<bar>)
      in foldl (\<lambda>best c. case best of None \<Rightarrow> Some c
                          | Some b \<Rightarrow> if dist c < dist b then Some c else Some b) None cs)"

fun shortest :: "rat \<Rightarrow> nat list \<Rightarrow> (nat \<times> int \<times> int) option" where
  "shortest v [] = None"
| "shortest v (k # ks) =
     (case closest v k (candidates v k (decExp v) @ candidates v k (decExp v + 1)) of
        Some (s, n) \<Rightarrow> Some (k, s, n)
      | None \<Rightarrow> shortest v ks)"

definition formatDigits :: "nat \<Rightarrow> int \<Rightarrow> int \<Rightarrow> jsstring" where
  "formatDigits k s n =
     (let ds = decimal (nat s) in
        if int k \<le> n \<and> n \<le> 21 then ds @ replicate (nat (n - int k)) (digitChar 0)
        else if 0 < n \<and> n \<le> 21 then take (nat n) ds @ dot # drop (nat n) ds
        else if - 6 < n \<and> n \<le> 0 then lit ''0.'' @ replicate (nat (- n)) (digitChar 0) @ ds
        else
          let ex = lit (if 0 \<le> n - 1 then ''e+'' else ''e-'') @ decimal (nat \<bar>n - 1\<bar>)
          in if k = 1 then ds @ ex else hd ds # dot # tl ds @ ex)"

definition toStringPos :: "rat \<Rightarrow> jsstring" where
  "toStringPos v =
     (if v = of_int \<lfloor>v\<rfloor> \<and> v \<le> 2 ^ 53 then decimal (nat \<lfloor>v\<rfloor>)
      else (case shortest v [1 ..< 18] of
              Some (k, s, n) \<Rightarrow> formatDigits k s n
            | None \<Rightarrow> []))"

text \<open>\<open>`${v}`\<close> for a value that is a number or \<open>undefined\<close>.\<close>

definition toString :: "jsval \<Rightarrow> jsstring" where
  "toString v =
     (case v of
        Undefined \<Rightarrow> lit ''undefined''
      | NaN \<Rightarrow> lit ''NaN''
      | PosInf \<Rightarrow> lit ''Infinity''
      | NegInf \<Rightarrow> lit ''-Infinity''
      | Fin q \<Rightarrow> if q < 0 then lit ''-'' @ toStringPos (- q) else toStringPos q)"

text \<open>\<open>v++\<close> and \<open>v + 1\<close> on such a value: \<open>undefined\<close> converts to \<open>NaN\<close>.\<close>

definition increment :: "jsval \<Rightarrow> jsval" where
  "increment v =
     (case v of Fin q \<Rightarrow> roundDouble (q + 1) | PosInf \<Rightarrow> PosInf | NegInf \<Rightarrow> NegInf | _ \<Rightarrow> NaN)"

text \<open>\<open>a > b\<close> and \<open>a === b\<close> on such values.\<close>

definition js_gt :: "jsval \<Rightarrow> jsval \<Rightarrow> bool" where
  "js_gt a b =
     (case (a, b) of
        (Fin p, Fin q) \<Rightarrow> q < p
      | (Fin p, NegInf) \<Rightarrow> True
      | (PosInf, Fin q) \<Rightarrow> True
      | (PosInf, NegInf) \<Rightarrow> True
      | _ \<Rightarrow> False)"

definition strictEq :: "jsval \<Rightarrow> jsval \<Rightarrow> bool" where
  "strictEq a b = (a = b \<and> a \<noteq> NaN)"

section \<open>The environment: files, git, prompt, console\<close>

text \<open>
  The program is a script that reads and writes two files, calls a git client (simple-git)
  and asks the user through a prompt (inquirer). A \<open>world\<close> is what these calls read and
  change; a step of the script is a function from a world to a result (a thrown error or a
  value) and the world after it.
\<close>

type_synonym commit = nat

datatype path = VersionTxt | ChangelogMd

text \<open>The fields of simple-git's \<open>StatusResult\<close> that list files.\<close>

record status =
  not_added :: "jsstring list"
  conflicted :: "jsstring list"
  created :: "jsstring list"
  deleted :: "jsstring list"
  modified :: "jsstring list"
  renamed :: "(jsstring \<times> jsstring) list"
  staged :: "jsstring list"

datatype error =
    FileNotFound
  | RemoteUnreachable
  | WouldClobberTag
  | PushRejected
  | RemoteRefMissing jsstring
  | TagNotFound jsstring
  | TagAlreadyExists jsstring
  | UnknownRevision jsstring
  | StatusFailed
  | NoSelectableChoice

text \<open>What the script prints with \<open>console.warn\<close> and \<open>console.error\<close> (\<open>console.log\<close> is not kept).\<close>

datatype console = ConsoleWarn jsstring | ConsoleError jsstring "error option"

text \<open>
  \<^item> \<open>versionFile\<close>, \<open>changelogFile\<close>: the contents of version.txt and CHANGELOG.md, \<open>None\<close>
    when the file does not exist.
  \<^item> \<open>localTags\<close>, \<open>remoteTags\<close>: the tags of the local repository and of origin with the commit
    each points at, the local ones in the order in which the client lists them.
  \<^item> \<open>remoteUp\<close>: whether origin can be reached.
  \<^item> \<open>headCommit\<close>: the commit HEAD points at; \<open>nextCommit\<close>: the name of the next new commit.
  \<^item> \<open>logOutput c\<close>: what \<open>git log c..HEAD --pretty=format:%s --no-merges\<close> prints.
  \<^item> \<open>statusResult\<close>: what the status query returns, \<open>None\<close> when it fails.
  \<^item> \<open>isoNow\<close>: \<open>new Date().toISOString()\<close>.
  \<^item> \<open>index\<close>: the files staged by the script; \<open>commits\<close>: the commits it made.
  \<^item> \<open>stderr\<close>: the warnings and errors printed.
\<close>

record world =
  versionFile :: "jsstring option"
  changelogFile :: "jsstring option"
  localTags :: "(jsstring \<times> commit) list"
  remoteTags :: "(jsstring \<times> commit) list"
  remoteUp :: bool
  headCommit :: commit
  nextCommit :: commit
  logOutput :: "commit \<Rightarrow> jsstring"
  statusResult :: "status option"
  isoNow :: jsstring
  index :: "path list"
  commits :: "(commit \<times> jsstring \<times> path list) list"
  stderr :: "console list"

type_synonym 'a io = "world \<Rightarrow> (error + 'a) \<times> world"

definition ret :: "'a \<Rightarrow> 'a io" where
  "ret x w = (Inr x, w)"

definition throw :: "error \<Rightarrow> 'a io" where
  "throw e w = (Inl e, w)"

text \<open>\<open>bind m f\<close>: \<open>m\<close>, then \<open>f\<close> on its value; an error thrown by \<open>m\<close> ends the sequence.\<close>

definition bind :: "'a io \<Rightarrow> ('a \<Rightarrow> 'b io) \<Rightarrow> 'b io" where
  "bind m f w = (case m w of (Inl e, w') \<Rightarrow> (Inl e, w') | (Inr x, w') \<Rightarrow> f x w')"

text \<open>\<open>try { m } catch (error) { h(error) }\<close>.\<close>

definition tryCatch :: "'a io \<Rightarrow> (error \<Rightarrow> 'a io) \<Rightarrow> 'a io" where
  "tryCatch m h w = (case m w of (Inl e, w') \<Rightarrow> h e w' | (Inr x, w') \<Rightarrow> (Inr x, w'))"

text \<open>\<open>m.catch(() => {})\<close>: an error of \<open>m\<close> is dropped.\<close>

definition ignoreErrors :: "'a io \<Rightarrow> unit io" where
  "ignoreErrors m w = (Inr (), snd (m w))"

definition consoleWarn :: "jsstring \<Rightarrow> unit io" where
  "consoleWarn msg w = (Inr (), w\<lparr>stderr := stderr w @ [ConsoleWarn msg]\<rparr>)"

definition consoleError :: "jsstring \<Rightarrow> error option \<Rightarrow> unit io" where
  "consoleError msg e w = (Inr (), w\<lparr>stderr := stderr w @ [ConsoleError msg e]\<rparr>)"

subsection \<open>The git client\<close>

text \<open>\<open>git.tags()\<close>, field \<open>all\<close>: the names of the local tags.\<close>

definition git_tags :: "jsstring list io" where
  "git_tags w = (Inr (map fst (localTags w)), w)"

text \<open>
  \<open>git.fetch(["--tags"])\<close>: the tags of origin that are not there locally are added; a tag
  that is there with another commit is not overwritten and makes the command fail.
\<close>

definition git_fetch_tags :: "unit io" where
  "git_fetch_tags w =
     (if \<not> remoteUp w then (Inl RemoteUnreachable, w)
      else
        let new = filter (\<lambda>(t, c). map_of (localTags w) t = None) (remoteTags w);
            clash = list_ex (\<lambda>(t, c). case map_of (localTags w) t of
                                         None \<Rightarrow> False | Some c' \<Rightarrow> c' \<noteq> c) (remoteTags w);
            w' = w\<lparr>localTags := localTags w @ new\<rparr>
        in if clash then (Inl WouldClobberTag, w') else (Inr (), w'))"

text \<open>
  \<open>git.addTag(name, ...)\<close>. simple-git declares \<open>addTag(name, callback?)\<close> and runs
  \<open>git tag <name>\<close>, a lightweight tag on HEAD: its second parameter is the completion
  callback, and a second argument that is not a function is dropped. The PROD branch
  passes the selected tag there; the argument is kept in the model to show the call as it
  is written, and has no effect, as in the client.
\<close>

definition git_addTag :: "jsstring \<Rightarrow> jsstring option \<Rightarrow> unit io" where
  "git_addTag name callback w =
     (if name \<in> set (map fst (localTags w)) then (Inl (TagAlreadyExists name), w)
      else (Inr (), w\<lparr>localTags := localTags w @ [(name, headCommit w)]\<rparr>))"

text \<open>\<open>git.push(["--delete", "origin", tag])\<close>.\<close>

definition git_push_delete :: "jsstring \<Rightarrow> unit io" where
  "git_push_delete tag w =
     (if \<not> remoteUp w then (Inl RemoteUnreachable, w)
      else if tag \<notin> set (map fst (remoteTags w)) then (Inl (RemoteRefMissing tag), w)
      else (Inr (), w\<lparr>remoteTags := filter (\<lambda>(t, c). t \<noteq> tag) (remoteTags w)\<rparr>))"

text \<open>\<open>git.tag(["-d", tag])\<close>.\<close>

definition git_tag_delete :: "jsstring \<Rightarrow> unit io" where
  "git_tag_delete tag w =
     (if tag \<notin> set (map fst (localTags w)) then (Inl (TagNotFound tag), w)
      else (Inr (), w\<lparr>localTags := filter (\<lambda>(t, c). t \<noteq> tag) (localTags w)\<rparr>))"

text \<open>
  \<open>git.pushTags()\<close>: the local tags that origin does not have are created there; a tag that
  origin has on another commit is rejected and makes the command fail.
\<close>

definition git_pushTags :: "unit io" where
  "git_pushTags w =
     (if \<not> remoteUp w then (Inl RemoteUnreachable, w)
      else
        let new = filter (\<lambda>(t, c). map_of (remoteTags w) t = None) (localTags w);
            clash = list_ex (\<lambda>(t, c). case map_of (remoteTags w) t of
                                         None \<Rightarrow> False | Some c' \<Rightarrow> c' \<noteq> c) (localTags w);
            w' = w\<lparr>remoteTags := remoteTags w @ new\<rparr>
        in if clash then (Inl PushRejected, w') else (Inr (), w'))"

text \<open>
  \<open>git.raw(["log", `${fromTag}..HEAD`, "--pretty=format:%s", "--no-merges"])\<close>. A revision
  that names no tag is unknown to git (branches and hashes are not modelled: the script only
  ever passes version strings).
\<close>

definition git_log :: "jsstring \<Rightarrow> jsstring io" where
  "git_log fromTag w =
     (case map_of (localTags w) fromTag of
        None \<Rightarrow> (Inl (UnknownRevision fromTag), w)
      | Some c \<Rightarrow> (Inr (logOutput w c), w))"

definition git_status :: "status io" where
  "git_status w = (case statusResult w of None \<Rightarrow> (Inl StatusFailed, w) | Some st \<Rightarrow> (Inr st, w))"

definition git_add :: "path list \<Rightarrow> unit io" where
  "git_add ps w = (Inr (), w\<lparr>index := index w @ ps\<rparr>)"

definition git_commit :: "jsstring \<Rightarrow> unit io" where
  "git_commit msg w =
     (Inr (), w\<lparr>commits := commits w @ [(nextCommit w, msg, index w)],
                headCommit := nextCommit w,
                nextCommit := Suc (nextCommit w),
                index := []\<rparr>)"

subsection \<open>The prompt\<close>

text \<open>
  An inquirer prompt of type list returns the choice the user picks; \<open>sel\<close> is the position
  of that choice. Nothing can be picked from an empty list.
\<close>

definition prompt :: "jsstring list \<Rightarrow> nat \<Rightarrow> jsstring io" where
  "prompt choices sel = (if sel < length choices then ret (choices ! sel) else throw NoSelectableChoice)"

section \<open>The version store\<close>

text \<open>
  \<open>interface Version { X; Y; Z; R }\<close>. The fields are declared \<open>number\<close>; at run time a
  field read from a short file is \<open>undefined\<close>.
\<close>

record Version =
  X :: jsval
  Y :: jsval
  Z :: jsval
  R :: jsval

text \<open>\<open>const [a, b, c, d] = xs\<close>: an element that is not there is \<open>undefined\<close>.\<close>

definition element :: "jsval list \<Rightarrow> nat \<Rightarrow> jsval" where
  "element xs i = (if i < length xs then xs ! i else Undefined)"

text \<open>\<open>readFileSync(versionFile, "utf-8")\<close> throws when the file does not exist.\<close>

definition readFileSync :: "jsstring io" where
  "readFileSync w = (case versionFile w of None \<Rightarrow> (Inl FileNotFound, w) | Some c \<Rightarrow> (Inr c, w))"

text \<open>release.ts, lines 53-60.\<close>

definition readCurrentVersionFromFile :: "Version io" where
  "readCurrentVersionFromFile =
     bind readFileSync (\<lambda>content.
       let ns = map Number_js (splitOn dot (trim content))
       in ret \<lparr>X = element ns 0, Y = element ns 1, Z = element ns 2, R = element ns 3\<rparr>)"

text \<open>\<open>`${v.X}.${v.Y}.${v.Z}.${v.R}`\<close>.\<close>

definition versionText :: "Version \<Rightarrow> jsstring" where
  "versionText v = toString (X v) @ dot # toString (Y v) @ dot # toString (Z v) @ dot # toString (R v)"

text \<open>release.ts, lines 62-64.\<close>

definition writeVersionIntoFile :: "Version \<Rightarrow> unit io" where
  "writeVersionIntoFile v w = (Inr (), w\<lparr>versionFile := Some (versionText v)\<rparr>)"

text \<open>The older script (part_000), lines 22-29 and 31-33: the same two functions.\<close>

definition readCurrentVersion :: "Version io" where
  "readCurrentVersion =
     bind readFileSync (\<lambda>content.
       let ns = map Number_js (splitOn dot (trim content))
       in ret \<lparr>X = element ns 0, Y = element ns 1, Z = element ns 2, R = element ns 3\<rparr>)"

definition writeVersion :: "Version \<Rightarrow> unit io" where
  "writeVersion v w = (Inr (), w\<lparr>versionFile := Some (versionText v)\<rparr>)"

section \<open>Tags\<close>

text \<open>\<open>/^\d+\.\d+\.\d+\.\d+$/.test(tag)\<close>: four non-empty runs of ASCII digits between dots.\<close>

definition isVersionTag :: "jsstring \<Rightarrow> bool" where
  "isVersionTag tag =
     (let ps = splitOn dot tag
      in length ps = 4 \<and> list_all (\<lambda>p. p \<noteq> [] \<and> list_all isDigit p) ps)"

text \<open>
  \<open>a.localeCompare(b, undefined, { numeric: true })\<close>: the strings are compared piece by
  piece, a run of digits being one piece that counts by its value (so leading zeros do not
  count), with punctuation before digits. This is the numeric collation on strings of
  digits and dots, which is all the tag filter lets through; other characters are ordered
  by code unit here, and the length at which a collation library stops reading a run of
  digits as one number (254 digits in ICU) is not modelled. The result is negative, zero
  or positive.
\<close>

datatype piece = Unit "16 word" | Digits nat

fun pieces :: "nat option \<Rightarrow> jsstring \<Rightarrow> piece list" where
  "pieces acc [] = (case acc of None \<Rightarrow> [] | Some n \<Rightarrow> [Digits n])"
| "pieces acc (c # cs) =
     (if isDigit c
      then pieces (Some (10 * (case acc of None \<Rightarrow> 0 | Some n \<Rightarrow> n) + digitVal c)) cs
      else (case acc of None \<Rightarrow> [] | Some n \<Rightarrow> [Digits n]) @ Unit c # pieces None cs)"

fun comparePiece :: "piece \<Rightarrow> piece \<Rightarrow> int" where
  "comparePiece (Digits m) (Digits n) = (if m < n then - 1 else if n < m then 1 else 0)"
| "comparePiece (Unit c) (Unit d) = (if unat c < unat d then - 1 else if unat d < unat c then 1 else 0)"
| "comparePiece (Unit c) (Digits n) = - 1"
| "comparePiece (Digits m) (Unit d) = 1"

fun comparePieces :: "piece list \<Rightarrow> piece list \<Rightarrow> int" where
  "comparePieces [] [] = 0"
| "comparePieces [] (b # bs) = - 1"
| "comparePieces (a # as) [] = 1"
| "comparePieces (a # as) (b # bs) =
     (if comparePiece a b \<noteq> 0 then comparePiece a b else comparePieces as bs)"

definition localeCompare :: "jsstring \<Rightarrow> jsstring \<Rightarrow> int" where
  "localeCompare a b = comparePieces (pieces None a) (pieces None b)"

text \<open>
  \<open>xs.sort(cmp)\<close>: \<open>cmp a b < 0\<close> puts \<open>a\<close> before \<open>b\<close>, and the sort of JavaScript is stable:
  elements that compare equal keep their order. For a comparator that is an order, as the
  one above is, that fixes the result; it is computed here by insertion.
\<close>

fun insertBy :: "('a \<Rightarrow> 'a \<Rightarrow> int) \<Rightarrow> 'a \<Rightarrow> 'a list \<Rightarrow> 'a list" where
  "insertBy cmp x [] = [x]"
| "insertBy cmp x (y # ys) = (if cmp x y \<le> 0 then x # y # ys else y # insertBy cmp x ys)"

fun sortBy :: "('a \<Rightarrow> 'a \<Rightarrow> int) \<Rightarrow> 'a list \<Rightarrow> 'a list" where
  "sortBy cmp [] = []"
| "sortBy cmp (x # xs) = insertBy cmp x (sortBy cmp xs)"

text \<open>release.ts, lines 66-71.\<close>

definition getAllTags :: "jsstring list io" where
  "getAllTags =
     bind git_tags (\<lambda>all.
       ret (sortBy (\<lambda>a b. localeCompare b a) (filter isVersionTag all)))"

text \<open>part_000, lines 35-38: no sort.\<close>

definition getAllTags_p0 :: "jsstring list io" where
  "getAllTags_p0 = bind git_tags (\<lambda>all. ret (filter isVersionTag all))"

text \<open>release.ts, lines 73-76; \<open>null\<close> is \<open>None\<close>.\<close>

definition getLatestTag :: "jsstring option io" where
  "getLatestTag =
     bind getAllTags (\<lambda>tags. ret (case tags of [] \<Rightarrow> None | t # _ \<Rightarrow> Some t))"

text \<open>release.ts, lines 78-81.\<close>

definition tagExists :: "jsstring \<Rightarrow> bool io" where
  "tagExists tag = bind git_tags (\<lambda>all. ret (tag \<in> set all))"

text \<open>release.ts, lines 22-29.\<close>

definition loadRemoteTags :: "unit io" where
  "loadRemoteTags =
     tryCatch git_fetch_tags
       (\<lambda>e. bind (consoleError (lit ''Failed to fetch remote tags:'') (Some e)) (\<lambda>_. throw e))"

text \<open>release.ts, lines 36-49: the test of the filter.\<close>

definition isBigger :: "Version \<Rightarrow> jsstring \<Rightarrow> bool" where
  "isBigger currentVersion tag =
     (let ns = map Number_js (splitOn dot tag);
          x = element ns 0; y = element ns 1; z = element ns 2; r = element ns 3
      in js_gt x (X currentVersion)
         \<or> (strictEq x (X currentVersion) \<and> js_gt y (Y currentVersion))
         \<or> (strictEq x (X currentVersion) \<and> strictEq y (Y currentVersion)
              \<and> js_gt z (Z currentVersion))
         \<or> (strictEq x (X currentVersion) \<and> strictEq y (Y currentVersion)
              \<and> strictEq z (Z currentVersion) \<and> js_gt r (R currentVersion)))"

text \<open>release.ts, lines 31-51.\<close>

definition findBiggerVersion :: "jsstring option io" where
  "findBiggerVersion =
     bind loadRemoteTags (\<lambda>_.
     bind readCurrentVersionFromFile (\<lambda>currentVersion.
     bind getAllTags (\<lambda>allTags.
       ret (case filter (isBigger currentVersion) allTags of [] \<Rightarrow> None | t # _ \<Rightarrow> Some t))))"

section \<open>The changelog\<close>

text \<open>
  \<open>/^[\u{1F4A5}\u{2728}\u{1F41B}]/u.test(s)\<close>: the first code point of \<open>s\<close> is one of the
  three markers. U+2728 is one code unit; U+1F4A5 and U+1F41B are the surrogate pairs
  D83D DCA5 and D83D DC1B.
\<close>

definition startsWithMarker :: "jsstring \<Rightarrow> bool" where
  "startsWithMarker s =
     (case s of
        [] \<Rightarrow> False
      | a # r \<Rightarrow> a = 0x2728
                 \<or> (a = 0xD83D \<and> (case r of [] \<Rightarrow> False | b # _ \<Rightarrow> b = 0xDCA5 \<or> b = 0xDC1B)))"

text \<open>The test of the filter of getChangelogSince (release.ts line 103, part_000 line 49).\<close>

definition qualifies :: "jsstring \<Rightarrow> bool" where
  "qualifies line = startsWithMarker (trim line)"

text \<open>release.ts, lines 83-104.\<close>

definition getChangelogSince :: "jsstring \<Rightarrow> jsstring list io" where
  "getChangelogSince fromTag =
     bind (tagExists fromTag) (\<lambda>exists.
     bind getAllTags (\<lambda>allTags.
       if \<not> exists
       then bind (consoleWarn (lit ''Tag '' @ [39] @ fromTag @ [39]
                                @ lit '' does not exist. Skipping changelog.''))
              (\<lambda>_. ret [])
       else bind (git_log fromTag) (\<lambda>logs.
              ret (filter qualifies (splitOn newline logs)))))"

text \<open>part_000, lines 40-50: the log is asked for without a test that the tag exists.\<close>

definition getChangelogSince_p0 :: "jsstring \<Rightarrow> jsstring list io" where
  "getChangelogSince_p0 fromTag =
     bind (git_log fromTag) (\<lambda>logs. ret (filter qualifies (splitOn newline logs)))"

text \<open>\<open>new Date().toISOString().split("T")[0]\<close>.\<close>

definition today :: "world \<Rightarrow> jsstring" where
  "today w = (case splitOn 84 (isoNow w) of [] \<Rightarrow> [] | d # _ \<Rightarrow> d)"

text \<open>The entry both scripts build: a heading and one bullet for each line.\<close>

definition changelogEntry :: "jsstring \<Rightarrow> jsstring \<Rightarrow> jsstring list \<Rightarrow> jsstring" where
  "changelogEntry version date logLines =
     lit ''## '' @ version @ lit '' ('' @ date @ lit '')'' @ [newline]
     @ joinWith newline (map (\<lambda>l. lit ''- '' @ l) logLines) @ [newline, newline]"

text \<open>part_000, lines 52-61.\<close>

definition updateChangelog :: "jsstring \<Rightarrow> jsstring list \<Rightarrow> unit io" where
  "updateChangelog version logLines w =
     (let entry = changelogEntry version (today w) logLines;
          existing = (case changelogFile w of None \<Rightarrow> [] | Some c \<Rightarrow> c)
      in (Inr (), w\<lparr>changelogFile := Some (entry @ existing)\<rparr>))"

text \<open>
  release.ts, lines 106-117. The commit message starts with U+1F9F9 (D83E DDF9). The two
  git calls are not awaited; the client runs its commands in the order of the calls, so
  they come before the next git call of the script.
\<close>

definition updateChangelogAndCommitIt :: "jsstring \<Rightarrow> jsstring list \<Rightarrow> unit io" where
  "updateChangelogAndCommitIt version logLines =
     bind (updateChangelog version logLines) (\<lambda>_.
     bind (git_add [ChangelogMd, VersionTxt]) (\<lambda>_.
       git_commit ([0xD83E, 0xDDF9] @ lit '' chore: update changelog for '' @ version)))"

text \<open>release.ts, lines 119-122; part_000, lines 63-66.\<close>

definition deleteRemoteTag :: "jsstring \<Rightarrow> unit io" where
  "deleteRemoteTag tag =
     bind (ignoreErrors (git_push_delete tag)) (\<lambda>_. ignoreErrors (git_tag_delete tag))"

text \<open>release.ts, lines 124-134. The result is a number: a count, or -1.\<close>

definition getUnchangedFileCount :: "int io" where
  "getUnchangedFileCount =
     tryCatch
       (bind git_status (\<lambda>st.
          ret (int (length (not_added st) + length (renamed st) + length (modified st)))))
       (\<lambda>e. bind (consoleError (lit ''Failed to get unchanged file count:'') (Some e))
               (\<lambda>_. ret (- 1)))"

section \<open>The release script (release.ts)\<close>

text \<open>\<open>a || b\<close> for \<open>a\<close> a string or \<open>null\<close>: \<open>null\<close> and the empty string are falsy.\<close>

definition orElse :: "jsstring option \<Rightarrow> jsstring \<Rightarrow> jsstring" where
  "orElse a b = (case a of None \<Rightarrow> b | Some s \<Rightarrow> if s = [] then b else s)"

text \<open>\<open>`${current.X}.${current.Y}.${current.Z}.${current.R + 1}`\<close>.\<close>

definition nextTagText :: "Version \<Rightarrow> jsstring" where
  "nextTagText current =
     toString (X current) @ dot # toString (Y current) @ dot # toString (Z current)
     @ dot # toString (increment (R current))"

text \<open>The four choices of the menu (lines 156-161; part_000, lines 81-86).\<close>

definition menu :: "jsstring \<Rightarrow> jsstring \<Rightarrow> jsstring list" where
  "menu displayVersion newTagMakeUATRelease =
     [lit ''UAT release, current version: '' @ displayVersion
        @ lit '', changes will be tagged as '' @ newTagMakeUATRelease,
      lit ''UAT start work on next release'',
      lit ''PROD release'',
      lit ''GENERATION'']"

text \<open>Lines 173-192: the branch of the UAT release.\<close>

definition uatRelease ::
  "Version \<Rightarrow> jsstring option \<Rightarrow> jsstring option \<Rightarrow> jsstring \<Rightarrow> jsstring \<Rightarrow> unit io" where
  "uatRelease current latestTagVersion latestVersion currentVersionStr newTagMakeUATRelease =
     bind (writeVersionIntoFile (current\<lparr>R := increment (R current)\<rparr>)) (\<lambda>_.
     bind (getChangelogSince (orElse latestTagVersion (orElse latestVersion currentVersionStr)))
       (\<lambda>logs.
         if length logs = 0 then ret ()
         else
           bind (updateChangelogAndCommitIt newTagMakeUATRelease logs) (\<lambda>_.
           bind (git_addTag newTagMakeUATRelease None) (\<lambda>_.
           bind (deleteRemoteTag (lit ''UAT-LATEST'')) (\<lambda>_.
           bind (git_addTag (lit ''UAT-LATEST'') None) (\<lambda>_.
             git_pushTags))))))"

text \<open>Lines 194-196.\<close>

definition startNextRelease :: "Version \<Rightarrow> unit io" where
  "startNextRelease current =
     writeVersionIntoFile (current\<lparr>Z := increment (Z current), R := Fin 0\<rparr>)"

text \<open>Lines 201-224: the branch of the PROD release; \<open>tagSel\<close> is the user's pick of a tag.\<close>

definition prodTagOf :: "jsstring \<Rightarrow> jsstring" where
  "prodTagOf selectedTag = joinWith dot (take 3 (splitOn dot selectedTag)) @ lit ''.PRODUCTION''"

definition prodRelease :: "nat \<Rightarrow> unit io" where
  "prodRelease tagSel =
     bind getAllTags (\<lambda>tags.
     bind (prompt (sortBy (\<lambda>a b. localeCompare b a) tags) tagSel) (\<lambda>selectedTag.
     bind (deleteRemoteTag (lit ''PRODUCTION-LATEST'')) (\<lambda>_.
     bind (git_addTag (lit ''PRODUCTION-LATEST'') (Some selectedTag)) (\<lambda>_.
     bind git_pushTags (\<lambda>_.
     bind (deleteRemoteTag (prodTagOf selectedTag)) (\<lambda>_.
     bind (git_addTag (prodTagOf selectedTag) (Some selectedTag)) (\<lambda>_.
       git_pushTags)))))))"

text \<open>Lines 228-231.\<close>

definition generation :: "Version \<Rightarrow> unit io" where
  "generation current =
     writeVersionIntoFile (current\<lparr>Y := increment (Y current), Z := Fin 0, R := Fin 0\<rparr>)"

text \<open>
  Lines 145-235: the script after the guard. \<open>menuSel\<close> is the position of the choice the
  user picks in the menu. \<open>getLatestTag()\<close> is called before the menu and awaited in the UAT
  branch only; no tag changes in between.
\<close>

definition proceed :: "nat \<Rightarrow> nat \<Rightarrow> unit io" where
  "proceed menuSel tagSel =
     bind readCurrentVersionFromFile (\<lambda>current.
     bind findBiggerVersion (\<lambda>latestVersion.
     bind getLatestTag (\<lambda>latestTagVersion.
       let currentVersionStr = versionText current;
           displayVersion = orElse latestVersion currentVersionStr;
           newTagMakeUATRelease = nextTagText current;
           choices = menu displayVersion newTagMakeUATRelease
       in bind (prompt choices menuSel) (\<lambda>releaseType.
            if releaseType = choices ! 0
            then uatRelease current latestTagVersion latestVersion currentVersionStr
                   newTagMakeUATRelease
            else if releaseType = lit ''UAT start work on next release''
            then startNextRelease current
            else if releaseType = lit ''PROD release'' then prodRelease tagSel
            else if releaseType = lit ''GENERATION'' then generation current
            else ret ()))))"

text \<open>Lines 136-143 and on: the guard on the working tree, then the script.\<close>

definition main :: "nat \<Rightarrow> nat \<Rightarrow> unit io" where
  "main menuSel tagSel =
     bind getUnchangedFileCount (\<lambda>unchangedFileCount.
       if 0 < unchangedFileCount
       then consoleError
              (lit ''There are '' @ toString (Fin (of_int unchangedFileCount))
               @ lit '' unchanged files. Please commit or stash them before proceeding.'')
              None
       else proceed menuSel tagSel)"

section \<open>The older script (part_000)\<close>

text \<open>Lines 91-97: the branch of the UAT release.\<close>

definition uatRelease_p0 :: "Version \<Rightarrow> jsstring \<Rightarrow> jsstring \<Rightarrow> unit io" where
  "uatRelease_p0 current currentTag newTagMakeUATRelease =
     bind (writeVersion (current\<lparr>R := increment (R current)\<rparr>)) (\<lambda>_.
     bind (getChangelogSince_p0 currentTag) (\<lambda>logs.
     bind (git_addTag newTagMakeUATRelease None) (\<lambda>_.
     bind git_pushTags (\<lambda>_.
       updateChangelog newTagMakeUATRelease logs))))"

text \<open>Lines 99-101.\<close>

definition startNextRelease_p0 :: "Version \<Rightarrow> unit io" where
  "startNextRelease_p0 current =
     writeVersion (current\<lparr>Z := increment (Z current), R := Fin 0\<rparr>)"

text \<open>Lines 106-129.\<close>

definition prodRelease_p0 :: "nat \<Rightarrow> unit io" where
  "prodRelease_p0 tagSel =
     bind getAllTags_p0 (\<lambda>tags.
     bind (prompt (sortBy (\<lambda>a b. localeCompare b a) tags) tagSel) (\<lambda>selectedTag.
     bind (deleteRemoteTag (lit ''PRODUCTION-LATEST'')) (\<lambda>_.
     bind (git_addTag (lit ''PRODUCTION-LATEST'') (Some selectedTag)) (\<lambda>_.
     bind git_pushTags (\<lambda>_.
     bind (deleteRemoteTag (prodTagOf selectedTag)) (\<lambda>_.
     bind (git_addTag (prodTagOf selectedTag) (Some selectedTag)) (\<lambda>_.
       git_pushTags)))))))"

text \<open>Lines 133-136.\<close>

definition generation_p0 :: "Version \<Rightarrow> unit io" where
  "generation_p0 current =
     writeVersion (current\<lparr>Y := increment (Y current), Z := Fin 0, R := Fin 0\<rparr>)"

text \<open>
  Lines 68-141. The first choice of the menu is the long label; the first branch compares
  the answer with \<open>"UAT release"\<close>.
\<close>

definition main_p0 :: "nat \<Rightarrow> nat \<Rightarrow> unit io" where
  "main_p0 menuSel tagSel =
     bind readCurrentVersion (\<lambda>current.
       let currentTag = versionText current;
           newTagMakeUATRelease = nextTagText current
       in bind (prompt (menu currentTag newTagMakeUATRelease) menuSel) (\<lambda>releaseType.
            if releaseType = lit ''UAT release''
            then uatRelease_p0 current currentTag newTagMakeUATRelease
            else if releaseType = lit ''UAT start work on next release''
            then startNextRelease_p0 current
            else if releaseType = lit ''PROD release'' then prodRelease_p0 tagSel
            else if releaseType = lit ''GENERATION'' then generation_p0 current
            else ret ()))"

section \<open>Notions of the spec\<close>

text \<open>
  A version file as the spec describes it (\<open>X.Y.Z.R\<close>, decimal integers): the four numbers
  in decimal, joined by dots.
\<close>

definition serialized :: "nat \<Rightarrow> nat \<Rightarrow> nat \<Rightarrow> nat \<Rightarrow> jsstring" where
  "serialized a b c d = decimal a @ dot # decimal b @ dot # decimal c @ dot # decimal d"

text \<open>
  The four integers of a version tag, (X, Y, Z, R), as the spec compares tags: the tuples
  are ordered lexicographically, component by component.
\<close>

definition versionKey :: "jsstring \<Rightarrow> nat \<times> nat \<times> nat \<times> nat" where
  "versionKey tag =
     (case map (digitsValue 10) (splitOn dot tag) of
        [x, y, z, r] \<Rightarrow> (x, y, z, r)
      | _ \<Rightarrow> (0, 0, 0, 0))"

section \<open>Parts of the world a step leaves alone\<close>

text \<open>\<open>preserves f m\<close>: the step \<open>m\<close> never changes the part \<open>f\<close> of the world.\<close>

definition preserves :: "(world \<Rightarrow> 'b) \<Rightarrow> 'a io \<Rightarrow> bool" where
  "preserves f m = (\<forall>w. f (snd (m w)) = f w)"

section \<open>Inputs of the examples\<close>

text \<open>
  A repository with one released version, \<open>4.1.2.9\<close> on commit 1, in sync with origin, HEAD
  on commit 2, no changelog yet and nothing to release.
\<close>

definition noLog :: "commit \<Rightarrow> jsstring" where
  "noLog c = []"

definition world0 :: world where
  "world0 =
     \<lparr>versionFile = Some (lit ''4.1.2.9''), changelogFile = None,
      localTags = [(lit ''4.1.2.9'', 1)], remoteTags = [(lit ''4.1.2.9'', 1)], remoteUp = True,
      headCommit = 2, nextCommit = 3, logOutput = noLog, statusResult = None,
      isoNow = lit ''2026-11-03T10:00:00.000Z'', index = [], commits = [], stderr = []\<rparr>"

text \<open>Two tags that differ in a leading zero; and the two tags of the example of the spec.\<close>

definition worldZeros :: world where
  "worldZeros = world0\<lparr>localTags := [(lit ''4.1.2.9'', 1), (lit ''4.1.2.09'', 2)]\<rparr>"

definition worldTen :: world where
  "worldTen = world0\<lparr>localTags := [(lit ''4.1.2.9'', 1), (lit ''4.1.2.10'', 2)]\<rparr>"

text \<open>
  The three subjects of the example of the spec, a log that prints them, and a log of one
  subject with a space before its marker.
\<close>

definition subjectAdd :: jsstring where
  "subjectAdd = [0x2728] @ lit '' add X''"

definition subjectTypo :: jsstring where
  "subjectTypo = lit ''fix typo''"

definition subjectFix :: jsstring where
  "subjectFix = [0xD83D, 0xDC1B] @ lit '' fix Y''"

definition exampleLog :: "commit \<Rightarrow> jsstring" where
  "exampleLog c = joinWith newline [subjectAdd, subjectTypo, subjectFix]"

definition indentedLog :: "commit \<Rightarrow> jsstring" where
  "indentedLog c = lit '' '' @ subjectAdd"

text \<open>
  A working tree with an untracked and a modified file; and one where a file was deleted
  and another created and staged, nothing else.
\<close>

definition dirtyStatus :: status where
  "dirtyStatus =
     \<lparr>not_added = [lit ''notes.txt''], conflicted = [], created = [], deleted = [],
      modified = [lit ''src/release.ts''], renamed = [], staged = []\<rparr>"

definition deletedStatus :: status where
  "deletedStatus =
     \<lparr>not_added = [], conflicted = [], created = [lit ''new.ts''], deleted = [lit ''old.ts''],
      modified = [], renamed = [], staged = [lit ''new.ts'', lit ''old.ts'']\<rparr>"

section \<open>Properties\<close>

subsection \<open>Digits, numbers and their text\<close>

lemma unat_digitChar: "d < 10 \<Longrightarrow> unat (digitChar d) = 48 + d"
  unfolding digitChar_def by (simp only: unat_of_nat) simp

lemma isDigit_digitChar: "d < 10 \<Longrightarrow> isDigit (digitChar d)"
  by (simp add: isDigit_def unat_digitChar)

lemma digitVal_digitChar: "d < 10 \<Longrightarrow> digitVal (digitChar d) = d"
  by (simp add: digitVal_def unat_digitChar)

lemma isDigit_not_dot: "isDigit c \<Longrightarrow> c \<noteq> dot"
  by (auto simp: isDigit_def dot_def)

lemma isDigit_not_space: "isDigit c \<Longrightarrow> \<not> isWhiteSpace c"
  by (auto simp: isDigit_def isWhiteSpace_def Let_def)

lemma decimal_digits: "list_all isDigit (decimal n)"
proof (induction n rule: decimal.induct)
  case (1 n)
  show ?case
  proof (cases "n < 10")
    case True
    then show ?thesis by (simp add: decimal.simps [of n] isDigit_digitChar)
  next
    case False
    with 1 show ?thesis by (simp add: decimal.simps [of n] isDigit_digitChar)
  qed
qed

lemma decimal_nonempty: "decimal n \<noteq> []"
  by (simp add: decimal.simps [of n])

lemma digitsValue_snoc: "digitsValue b (s @ [c]) = b * digitsValue b s + digitVal c"
  by (simp add: digitsValue_def)

lemma digitsValue_decimal: "digitsValue 10 (decimal n) = n"
proof (induction n rule: decimal.induct)
  case (1 n)
  show ?case
  proof (cases "n < 10")
    case True
    then show ?thesis by (simp add: decimal.simps [of n] digitsValue_def digitVal_digitChar)
  next
    case False
    with 1 show ?thesis
      by (simp add: decimal.simps [of n] digitsValue_snoc digitVal_digitChar)
  qed
qed

lemma splitOn_no_sep: "sep \<notin> set s \<Longrightarrow> splitOn sep s = [s]"
  by (induction s) auto

lemma splitOn_append: "sep \<notin> set a \<Longrightarrow> splitOn sep (a @ sep # r) = a # splitOn sep r"
  by (induction a) auto

lemma trim_id: "s \<noteq> [] \<Longrightarrow> \<not> isWhiteSpace (hd s) \<Longrightarrow> \<not> isWhiteSpace (last s) \<Longrightarrow> trim s = s"
proof -
  assume a: "s \<noteq> []" "\<not> isWhiteSpace (hd s)" "\<not> isWhiteSpace (last s)"
  from a have 1: "dropWhile isWhiteSpace s = s" by (cases s) auto
  from a have r: "rev s = last s # rev (butlast s)"
    by (metis append_butlast_last_id rev.simps(2) rev_swap rev_append)
  from a have "dropWhile isWhiteSpace (last s # rev (butlast s)) = last s # rev (butlast s)"
    by simp
  then have 2: "dropWhile isWhiteSpace (rev s) = rev s" by (simp only: r)
  show ?thesis by (simp add: trim_def 1 2)
qed

lemma floor_numeral_div: "\<lfloor>(numeral a :: rat) / numeral b\<rfloor> = numeral a div numeral b"
  using floor_divide_of_int_eq [of "numeral a" "numeral b", where ?'a = rat] by simp

lemma roundPos_ex: "roundPos 9007199254740993 = Fin 9007199254740992"
  by (simp add: roundPos_def ilog2_def bitlen.simps scale2_def Let_def floor_numeral_div)

lemma roundDouble_ex: "roundDouble 9007199254740993 = Fin 9007199254740992"
  by (simp add: roundDouble_def roundPos_def ilog2_def bitlen.simps scale2_def Let_def floor_numeral_div)

lemma roundDouble_nat: "n \<le> 2 ^ 53 \<Longrightarrow> roundDouble (of_nat n) = Fin (of_nat n)"
proof -
  assume "n \<le> 2 ^ 53"
  then have "(of_nat n :: rat) \<le> of_nat (2 ^ 53)" by (simp only: of_nat_le_iff)
  then have "(of_nat n :: rat) \<le> 2 ^ 53" by simp
  then show ?thesis by (simp add: roundDouble_def roundPos_def)
qed

lemma lit_Infinity_not_digits: "list_all isDigit u \<Longrightarrow> u \<noteq> lit ''Infinity''"
  by (auto simp: lit_def isDigit_def)

lemma unsignedDecimal_digits:
  "u \<noteq> [] \<Longrightarrow> list_all isDigit u \<Longrightarrow> unsignedDecimal u = roundDouble (of_nat (digitsValue 10 u))"
proof -
  assume a: "u \<noteq> []" "list_all isDigit u"
  then have t: "takeWhile isDigit u = u" "dropWhile isDigit u = []"
    by (simp_all add: list_all_iff)
  show ?thesis
    using a by (simp add: unsignedDecimal_def lit_Infinity_not_digits t exponentPart_def scale10_def)
qed

lemma nonDecimal_digits: "list_all isDigit u \<Longrightarrow> nonDecimal u = None"
  by (auto simp: nonDecimal_def isDigit_def Let_def split: list.splits)

lemma Number_js_digits:
  "u \<noteq> [] \<Longrightarrow> list_all isDigit u \<Longrightarrow> Number_js u = roundDouble (of_nat (digitsValue 10 u))"
proof -
  assume a: "u \<noteq> []" "list_all isDigit u"
  then have h: "isDigit (hd u)" "isDigit (last u)" by (auto simp: list_all_iff)
  then have "trim u = u" using a by (simp add: trim_id isDigit_not_space)
  moreover from h have "unat (hd u) \<noteq> 43" "unat (hd u) \<noteq> 45" by (auto simp: isDigit_def)
  ultimately show ?thesis
    using a by (simp add: Number_js_def nonDecimal_digits unsignedDecimal_digits)
qed

lemma Number_js_decimal: "Number_js (decimal n) = roundDouble (of_nat n)"
  by (simp add: Number_js_digits decimal_nonempty decimal_digits digitsValue_decimal)

lemma toString_nat: "n \<le> 2 ^ 53 \<Longrightarrow> toString (Fin (of_nat n)) = decimal n"
proof -
  assume "n \<le> 2 ^ 53"
  then have "(of_nat n :: rat) \<le> of_nat (2 ^ 53)" by (simp only: of_nat_le_iff)
  then have "(of_nat n :: rat) \<le> 2 ^ 53" by simp
  then show ?thesis by (simp add: toString_def toStringPos_def)
qed


subsection \<open>The version store\<close>

lemma dot_notin_decimal: "dot \<notin> set (decimal n)"
  using decimal_digits [of n] isDigit_not_dot by (auto simp: list_all_iff)

lemma splitOn_serialized:
  "splitOn dot (serialized a b c d) = [decimal a, decimal b, decimal c, decimal d]"
  by (simp add: serialized_def splitOn_append splitOn_no_sep dot_notin_decimal)

lemma trim_serialized: "trim (serialized a b c d) = serialized a b c d"
proof -
  have "isDigit (hd (decimal a))" "isDigit (last (decimal d))"
    using decimal_digits [of a] decimal_digits [of d] decimal_nonempty [of a] decimal_nonempty [of d]
    by (auto simp: list_all_iff)
  then show ?thesis
    by (intro trim_id) (simp_all add: serialized_def decimal_nonempty isDigit_not_space)
qed

lemma read_serialized:
  "readCurrentVersionFromFile (w\<lparr>versionFile := Some (serialized a b c d)\<rparr>) =
     (Inr \<lparr>X = roundDouble (of_nat a), Y = roundDouble (of_nat b),
           Z = roundDouble (of_nat c), R = roundDouble (of_nat d)\<rparr>,
      w\<lparr>versionFile := Some (serialized a b c d)\<rparr>)"
  by (simp add: readCurrentVersionFromFile_def readFileSync_def bind_def ret_def
      trim_serialized splitOn_serialized element_def Number_js_decimal)

lemma readCurrentVersion_eq: "readCurrentVersion = readCurrentVersionFromFile"
  by (simp add: readCurrentVersion_def readCurrentVersionFromFile_def)

lemma writeVersion_eq: "writeVersion = writeVersionIntoFile"
  by (rule ext, rule ext) (simp add: writeVersion_def writeVersionIntoFile_def)

lemma versionText_nat:
  "a \<le> 2 ^ 53 \<Longrightarrow> b \<le> 2 ^ 53 \<Longrightarrow> c \<le> 2 ^ 53 \<Longrightarrow> d \<le> 2 ^ 53 \<Longrightarrow>
   versionText \<lparr>X = Fin (of_nat a), Y = Fin (of_nat b), Z = Fin (of_nat c), R = Fin (of_nat d)\<rparr>
     = serialized a b c d"
  by (simp add: versionText_def toString_nat serialized_def)

lemma decimal_inj: "decimal m = decimal n \<Longrightarrow> m = n"
  by (metis digitsValue_decimal)

lemma roundtrip_gen:
  assumes "a \<le> 2 ^ 53" and "b \<le> 2 ^ 53" and "c \<le> 2 ^ 53"
    and "roundDouble (of_nat d) = Fin (of_nat d')" and "d' \<le> 2 ^ 53"
  shows "bind readCurrentVersionFromFile writeVersionIntoFile
           (w\<lparr>versionFile := Some (serialized a b c d)\<rparr>)
           = (Inr (), w\<lparr>versionFile := Some (serialized a b c d')\<rparr>)"
proof -
  have "versionText \<lparr>X = Fin (of_nat a), Y = Fin (of_nat b), Z = Fin (of_nat c),
                     R = Fin (of_nat d')\<rparr> = serialized a b c d'"
    using assms by (intro versionText_nat)
  then show ?thesis
    using assms by (simp only: bind_def read_serialized roundDouble_nat writeVersionIntoFile_def) simp
qed

text \<open>
  Claim C5, as the code has it. A version file holding four integers of at most \<open>2^53\<close>
  in decimal, joined by dots, is read and written back unchanged, by the functions of both
  scripts. (Every integer up to \<open>2^53\<close> is a number of JavaScript and is printed with all
  its digits; see the counterexample for what happens above.)
\<close>

theorem version_roundtrip:
  assumes "a \<le> 2 ^ 53" and "b \<le> 2 ^ 53" and "c \<le> 2 ^ 53" and "d \<le> 2 ^ 53"
  shows "bind readCurrentVersionFromFile writeVersionIntoFile
           (w\<lparr>versionFile := Some (serialized a b c d)\<rparr>)
           = (Inr (), w\<lparr>versionFile := Some (serialized a b c d)\<rparr>)
         \<and> bind readCurrentVersion writeVersion (w\<lparr>versionFile := Some (serialized a b c d)\<rparr>)
           = (Inr (), w\<lparr>versionFile := Some (serialized a b c d)\<rparr>)"
  using assms roundtrip_gen [of a b c d d w]
  by (simp add: readCurrentVersion_eq writeVersion_eq roundDouble_nat)

theorem version_roundtrip_witness:
  "(4::nat) \<le> 2 ^ 53 \<and> (1::nat) \<le> 2 ^ 53 \<and> (2::nat) \<le> 2 ^ 53 \<and> (9::nat) \<le> 2 ^ 53
   \<and> bind readCurrentVersionFromFile writeVersionIntoFile
        (world0\<lparr>versionFile := Some (serialized 4 1 2 9)\<rparr>)
      = (Inr (), world0\<lparr>versionFile := Some (serialized 4 1 2 9)\<rparr>)"
  using version_roundtrip [of 4 1 2 9 world0] by simp

text \<open>
  Claim C5 as stated fails for a component that is not a double: the file
  \<open>4.1.2.9007199254740993\<close> is read as revision \<open>9007199254740992\<close> (\<open>2^53\<close>, the nearest
  double) and written back as \<open>4.1.2.9007199254740992\<close>.
\<close>

theorem version_roundtrip_counterexample:
  "bind readCurrentVersionFromFile writeVersionIntoFile
       (world0\<lparr>versionFile := Some (serialized 4 1 2 9007199254740993)\<rparr>)
     = (Inr (), world0\<lparr>versionFile := Some (serialized 4 1 2 9007199254740992)\<rparr>)
   \<and> serialized 4 1 2 9007199254740992 \<noteq> serialized 4 1 2 9007199254740993"
proof -
  have r: "roundDouble (of_nat 9007199254740993) = Fin (of_nat 9007199254740992)"
    using roundDouble_ex by simp
  have "bind readCurrentVersionFromFile writeVersionIntoFile
       (world0\<lparr>versionFile := Some (serialized 4 1 2 9007199254740993)\<rparr>)
     = (Inr (), world0\<lparr>versionFile := Some (serialized 4 1 2 9007199254740992)\<rparr>)"
    by (rule roundtrip_gen [OF _ _ _ r]) simp_all
  moreover have "serialized 4 1 2 9007199254740992 \<noteq> serialized 4 1 2 9007199254740993"
  proof
    assume "serialized 4 1 2 9007199254740992 = serialized 4 1 2 9007199254740993"
    then have "decimal 9007199254740992 = decimal 9007199254740993"
      by (simp add: serialized_def)
    then have "(9007199254740992::nat) = 9007199254740993" by (rule decimal_inj)
    then show False by simp
  qed
  ultimately show ?thesis by simp
qed

subsection \<open>Reading the version file\<close>

text \<open>
  Claim C1, as the code has it. Whatever the version file holds, reading it raises no error
  and returns a Version, in both scripts (neither checks the number of segments nor what
  \<open>Number\<close> returns); when the trimmed content has fewer than four segments, the revision is
  \<open>undefined\<close>.
\<close>

theorem read_returns_version:
  "\<exists>v. readCurrentVersionFromFile (w\<lparr>versionFile := Some c\<rparr>) = (Inr v, w\<lparr>versionFile := Some c\<rparr>)
       \<and> readCurrentVersion (w\<lparr>versionFile := Some c\<rparr>) = (Inr v, w\<lparr>versionFile := Some c\<rparr>)
       \<and> (length (splitOn dot (trim c)) < 4 \<longrightarrow> R v = Undefined)"
  by (simp add: readCurrentVersion_eq readCurrentVersionFromFile_def readFileSync_def bind_def
      ret_def element_def Let_def)

theorem read_returns_version_witness:
  "length (splitOn dot (trim (lit ''1.2.3''))) < 4
   \<and> (\<exists>v. readCurrentVersionFromFile (world0\<lparr>versionFile := Some (lit ''1.2.3'')\<rparr>)
            = (Inr v, world0\<lparr>versionFile := Some (lit ''1.2.3'')\<rparr>)
          \<and> R v = Undefined)"
proof -
  have "length (splitOn dot (trim (lit ''1.2.3''))) < 4"
    by (simp add: lit_def trim_def isWhiteSpace_def dot_def)
  with read_returns_version [where w = world0 and c = "lit ''1.2.3''"] show ?thesis by blast
qed

text \<open>
  Claim C1 as stated fails: \<open>1.2.3\<close> is not four numeric segments, and reading it returns
  the Version 1, 2, 3, \<open>undefined\<close> instead of failing.
\<close>

theorem read_malformed_counterexample:
  "\<not> isVersionTag (lit ''1.2.3'')
   \<and> readCurrentVersionFromFile (world0\<lparr>versionFile := Some (lit ''1.2.3'')\<rparr>)
       = (Inr \<lparr>X = Fin 1, Y = Fin 2, Z = Fin 3, R = Undefined\<rparr>,
          world0\<lparr>versionFile := Some (lit ''1.2.3'')\<rparr>)"
  by (simp add: isVersionTag_def readCurrentVersionFromFile_def readFileSync_def bind_def ret_def
      element_def Let_def lit_def trim_def isWhiteSpace_def dot_def Number_js_def nonDecimal_def
      unsignedDecimal_def isDigit_def exponentPart_def scale10_def digitsValue_def digitVal_def
      roundDouble_def roundPos_def)

subsection \<open>The changelog query\<close>

lemma splitOn_joinWith:
  "ss \<noteq> [] \<Longrightarrow> \<forall>s\<in>set ss. sep \<notin> set s \<Longrightarrow> splitOn sep (joinWith sep ss) = ss"
proof (induction sep ss rule: joinWith.induct)
  case (1 sep)
  then show ?case by simp
next
  case (2 sep x)
  then show ?case by (simp add: splitOn_no_sep)
next
  case (3 sep x y ys)
  then show ?case by (simp add: splitOn_append)
qed

lemma qualifies_empty: "\<not> qualifies []"
  by (simp add: qualifies_def trim_def startsWithMarker_def)

lemma filter_split_join:
  assumes "\<forall>s\<in>set ss. newline \<notin> set s"
  shows "filter qualifies (splitOn newline (joinWith newline ss)) = filter qualifies ss"
proof (cases "ss = []")
  case True
  then show ?thesis by (simp add: qualifies_empty)
next
  case False
  with assms show ?thesis by (simp add: splitOn_joinWith)
qed

lemma member_map_of: "map_of xs k = Some v \<Longrightarrow> k \<in> fst ` set xs"
  by (auto dest!: map_of_SomeD intro: rev_image_eqI)

lemma getAllTags_run:
  "getAllTags w =
     (Inr (sortBy (\<lambda>a b. localeCompare b a) (filter isVersionTag (map fst (localTags w)))), w)"
  by (simp add: getAllTags_def bind_def git_tags_def ret_def)

lemma getChangelogSince_run:
  assumes "\<forall>s\<in>set ss. newline \<notin> set s"
    and "map_of (localTags w) fromTag = Some c"
    and "logOutput w c = joinWith newline ss"
  shows "getChangelogSince fromTag w = (Inr (filter (\<lambda>s. startsWithMarker (trim s)) ss), w)"
    and "getChangelogSince_p0 fromTag w = (Inr (filter (\<lambda>s. startsWithMarker (trim s)) ss), w)"
proof -
  have q: "qualifies = (\<lambda>s. startsWithMarker (trim s))"
    by (rule ext) (simp add: qualifies_def)
  have f: "filter qualifies (splitOn newline (logOutput w c)) = filter qualifies ss"
    using assms by (simp add: filter_split_join)
  show "getChangelogSince fromTag w = (Inr (filter (\<lambda>s. startsWithMarker (trim s)) ss), w)"
    using f assms(2) member_map_of [OF assms(2)]
    by (simp add: getChangelogSince_def tagExists_def bind_def git_tags_def ret_def
        getAllTags_run git_log_def q)
  show "getChangelogSince_p0 fromTag w = (Inr (filter (\<lambda>s. startsWithMarker (trim s)) ss), w)"
    using f assms(2) by (simp add: getChangelogSince_p0_def bind_def ret_def git_log_def q)
qed

text \<open>
  Claim C7, as the code has it. When the log prints the subjects \<open>ss\<close>, one on each line, the
  query of both scripts returns exactly the subjects that begin with one of the three
  markers once the white space around them is trimmed, in the order of the log.
\<close>

theorem changelog_filter:
  assumes "\<forall>s\<in>set ss. newline \<notin> set s"
    and "map_of (localTags w) fromTag = Some c"
    and "logOutput w c = joinWith newline ss"
  shows "getChangelogSince fromTag w = (Inr (filter (\<lambda>s. startsWithMarker (trim s)) ss), w)
       \<and> getChangelogSince_p0 fromTag w = (Inr (filter (\<lambda>s. startsWithMarker (trim s)) ss), w)"
  using getChangelogSince_run [OF assms] by simp

theorem changelog_filter_witness:
  "newline \<notin> set subjectAdd \<and> newline \<notin> set subjectTypo \<and> newline \<notin> set subjectFix
   \<and> map_of (localTags (world0\<lparr>logOutput := exampleLog\<rparr>)) (lit ''4.1.2.9'') = Some 1
   \<and> logOutput (world0\<lparr>logOutput := exampleLog\<rparr>) 1
        = joinWith newline [subjectAdd, subjectTypo, subjectFix]
   \<and> getChangelogSince (lit ''4.1.2.9'') (world0\<lparr>logOutput := exampleLog\<rparr>)
        = (Inr [subjectAdd, subjectFix], world0\<lparr>logOutput := exampleLog\<rparr>)"
proof -
  have a: "\<forall>s\<in>set [subjectAdd, subjectTypo, subjectFix]. newline \<notin> set s"
    by (simp add: subjectAdd_def subjectTypo_def subjectFix_def lit_def newline_def)
  have b: "map_of (localTags (world0\<lparr>logOutput := exampleLog\<rparr>)) (lit ''4.1.2.9'') = Some 1"
    by (simp add: world0_def)
  have c: "logOutput (world0\<lparr>logOutput := exampleLog\<rparr>) 1
        = joinWith newline [subjectAdd, subjectTypo, subjectFix]"
    by (simp add: exampleLog_def)
  have d: "filter (\<lambda>s. startsWithMarker (trim s)) [subjectAdd, subjectTypo, subjectFix]
        = [subjectAdd, subjectFix]"
    by (simp add: subjectAdd_def subjectTypo_def subjectFix_def lit_def trim_def
        isWhiteSpace_def startsWithMarker_def)
  from changelog_filter [OF a b c] have
    "getChangelogSince (lit ''4.1.2.9'') (world0\<lparr>logOutput := exampleLog\<rparr>)
        = (Inr [subjectAdd, subjectFix], world0\<lparr>logOutput := exampleLog\<rparr>)"
    by (simp only: d)
  with a b c show ?thesis by simp
qed

text \<open>
  Claim C7 as stated fails: a subject that begins with a space and then a marker does not
  have a marker as its first character, and the query keeps it.
\<close>

theorem changelog_filter_counterexample:
  "\<not> startsWithMarker (lit '' '' @ subjectAdd)
   \<and> getChangelogSince (lit ''4.1.2.9'') (world0\<lparr>logOutput := indentedLog\<rparr>)
        = (Inr [lit '' '' @ subjectAdd], world0\<lparr>logOutput := indentedLog\<rparr>)"
proof -
  have a: "\<forall>s\<in>set [lit '' '' @ subjectAdd]. newline \<notin> set s"
    by (simp add: subjectAdd_def lit_def newline_def)
  have b: "map_of (localTags (world0\<lparr>logOutput := indentedLog\<rparr>)) (lit ''4.1.2.9'') = Some 1"
    by (simp add: world0_def)
  have c: "logOutput (world0\<lparr>logOutput := indentedLog\<rparr>) 1
        = joinWith newline [lit '' '' @ subjectAdd]"
    by (simp add: indentedLog_def)
  have d: "filter (\<lambda>s. startsWithMarker (trim s)) [lit '' '' @ subjectAdd]
        = [lit '' '' @ subjectAdd]"
    by (simp add: subjectAdd_def lit_def trim_def isWhiteSpace_def startsWithMarker_def)
  have e: "\<not> startsWithMarker (lit '' '' @ subjectAdd)"
    by (simp add: subjectAdd_def lit_def startsWithMarker_def)
  from getChangelogSince_run(1) [OF a b c] have
    "getChangelogSince (lit ''4.1.2.9'') (world0\<lparr>logOutput := indentedLog\<rparr>)
        = (Inr [lit '' '' @ subjectAdd], world0\<lparr>logOutput := indentedLog\<rparr>)"
    by (simp only: d)
  with e show ?thesis by blast
qed

subsection \<open>A tag that does not exist\<close>

lemma getChangelogSince_missing:
  assumes "fromTag \<notin> fst ` set (localTags w)"
  shows "getChangelogSince fromTag w =
           (Inr [], w\<lparr>stderr := stderr w @ [ConsoleWarn (lit ''Tag '' @ [39] @ fromTag @ [39]
                                    @ lit '' does not exist. Skipping changelog.'')]\<rparr>)"
  using assms
  by (simp add: getChangelogSince_def tagExists_def bind_def git_tags_def ret_def
      getAllTags_run consoleWarn_def)

lemma getChangelogSince_p0_missing:
  assumes "fromTag \<notin> fst ` set (localTags w)"
  shows "getChangelogSince_p0 fromTag w = (Inl (UnknownRevision fromTag), w)"
proof -
  from assms have "map_of (localTags w) fromTag = None" by (simp add: map_of_eq_None_iff)
  then show ?thesis by (simp add: getChangelogSince_p0_def bind_def git_log_def)
qed

text \<open>
  Claim C6 at its own example, a repository without the tag \<open>9.9.9.9\<close>: the query of
  release.ts returns the empty list and prints a warning; the query of the older script
  asks git for the log of an unknown revision and fails.
\<close>

theorem commits_since_missing_tag:
  "getChangelogSince (lit ''9.9.9.9'') world0 =
     (Inr [], world0\<lparr>stderr := [ConsoleWarn (lit ''Tag '' @ [39] @ lit ''9.9.9.9'' @ [39]
                                    @ lit '' does not exist. Skipping changelog.'')]\<rparr>)
   \<and> getChangelogSince_p0 (lit ''9.9.9.9'') world0 = (Inl (UnknownRevision (lit ''9.9.9.9'')), world0)"
proof -
  have a: "lit ''9.9.9.9'' \<notin> fst ` set (localTags world0)"
    by (simp add: world0_def lit_def)
  have "stderr world0 = []" by (simp add: world0_def)
  with getChangelogSince_missing [OF a] getChangelogSince_p0_missing [OF a] show ?thesis
    by simp
qed

subsection \<open>The guard on the working tree\<close>

lemma getUnchangedFileCount_failed:
  "statusResult w = None \<Longrightarrow>
   getUnchangedFileCount w =
     (Inr (- 1), w\<lparr>stderr := stderr w @ [ConsoleError (lit ''Failed to get unchanged file count:'')
                                          (Some StatusFailed)]\<rparr>)"
  by (simp add: getUnchangedFileCount_def tryCatch_def bind_def git_status_def consoleError_def
      ret_def)

lemma getUnchangedFileCount_ok:
  "statusResult w = Some st \<Longrightarrow>
   getUnchangedFileCount w =
     (Inr (int (length (not_added st) + length (renamed st) + length (modified st))), w)"
  by (simp add: getUnchangedFileCount_def tryCatch_def bind_def git_status_def ret_def)

text \<open>
  Claim C10. When the status query fails, \<open>getUnchangedFileCount\<close> prints the error and
  returns -1, and the script goes on after the guard. When it succeeds, the count is the
  number of untracked, renamed and modified files; the script stops with a message when
  that count is positive and goes on when the three lists are empty, whatever the deleted
  and the newly staged files are.
\<close>

theorem dirty_tree_guard:
  "(statusResult w = None \<longrightarrow>
      getUnchangedFileCount w =
        (Inr (- 1), w\<lparr>stderr := stderr w @ [ConsoleError (lit ''Failed to get unchanged file count:'')
                                             (Some StatusFailed)]\<rparr>)
      \<and> main menuSel tagSel w =
          proceed menuSel tagSel
            (w\<lparr>stderr := stderr w @ [ConsoleError (lit ''Failed to get unchanged file count:'')
                                      (Some StatusFailed)]\<rparr>))
   \<and> (statusResult w = Some st \<longrightarrow>
        getUnchangedFileCount w =
          (Inr (int (length (not_added st) + length (renamed st) + length (modified st))), w))
   \<and> (statusResult w = Some st
        \<and> 0 < length (not_added st) + length (renamed st) + length (modified st) \<longrightarrow>
        main menuSel tagSel w =
          (Inr (), w\<lparr>stderr := stderr w @
             [ConsoleError
                (lit ''There are ''
                 @ toString (Fin (of_int (int (length (not_added st) + length (renamed st)
                                               + length (modified st)))))
                 @ lit '' unchanged files. Please commit or stash them before proceeding.'')
                None]\<rparr>))
   \<and> (statusResult w = Some st \<and> not_added st = [] \<and> renamed st = [] \<and> modified st = [] \<longrightarrow>
        main menuSel tagSel w = proceed menuSel tagSel w)"
proof (intro conjI impI)
  assume a: "statusResult w = None"
  show "getUnchangedFileCount w =
        (Inr (- 1), w\<lparr>stderr := stderr w @ [ConsoleError (lit ''Failed to get unchanged file count:'')
                                             (Some StatusFailed)]\<rparr>)"
    using a by (rule getUnchangedFileCount_failed)
  show "main menuSel tagSel w =
          proceed menuSel tagSel
            (w\<lparr>stderr := stderr w @ [ConsoleError (lit ''Failed to get unchanged file count:'')
                                      (Some StatusFailed)]\<rparr>)"
    using a by (simp add: main_def bind_def getUnchangedFileCount_failed)
next
  assume "statusResult w = Some st"
  then show "getUnchangedFileCount w =
          (Inr (int (length (not_added st) + length (renamed st) + length (modified st))), w)"
    by (rule getUnchangedFileCount_ok)
next
  assume a: "statusResult w = Some st
        \<and> 0 < length (not_added st) + length (renamed st) + length (modified st)"
  then have "0 < int (length (not_added st) + length (renamed st) + length (modified st))"
    by (simp only: of_nat_0_less_iff)
  with a show "main menuSel tagSel w =
          (Inr (), w\<lparr>stderr := stderr w @
             [ConsoleError
                (lit ''There are ''
                 @ toString (Fin (of_int (int (length (not_added st) + length (renamed st)
                                               + length (modified st)))))
                 @ lit '' unchanged files. Please commit or stash them before proceeding.'')
                None]\<rparr>)"
    by (simp add: main_def bind_def getUnchangedFileCount_ok consoleError_def del: of_nat_add)
next
  assume "statusResult w = Some st \<and> not_added st = [] \<and> renamed st = [] \<and> modified st = []"
  then show "main menuSel tagSel w = proceed menuSel tagSel w"
    by (simp add: main_def bind_def getUnchangedFileCount_ok)
qed

theorem dirty_tree_guard_witness:
  "statusResult world0 = None
   \<and> main 1 0 world0 =
       proceed 1 0
         (world0\<lparr>stderr := stderr world0 @ [ConsoleError (lit ''Failed to get unchanged file count:'')
                                              (Some StatusFailed)]\<rparr>)
   \<and> statusResult (world0\<lparr>statusResult := Some dirtyStatus\<rparr>) = Some dirtyStatus
   \<and> 0 < length (not_added dirtyStatus) + length (renamed dirtyStatus) + length (modified dirtyStatus)
   \<and> fst (getUnchangedFileCount (world0\<lparr>statusResult := Some dirtyStatus\<rparr>)) = Inr 2
   \<and> versionFile (snd (main 1 0 (world0\<lparr>statusResult := Some dirtyStatus\<rparr>))) = Some (lit ''4.1.2.9'')
   \<and> statusResult (world0\<lparr>statusResult := Some deletedStatus\<rparr>) = Some deletedStatus
   \<and> not_added deletedStatus = [] \<and> renamed deletedStatus = [] \<and> modified deletedStatus = []
   \<and> main 1 0 (world0\<lparr>statusResult := Some deletedStatus\<rparr>)
       = proceed 1 0 (world0\<lparr>statusResult := Some deletedStatus\<rparr>)"
proof -
  have a: "statusResult world0 = None" by (simp add: world0_def)
  have b: "statusResult (world0\<lparr>statusResult := Some dirtyStatus\<rparr>) = Some dirtyStatus" by simp
  have c: "0 < length (not_added dirtyStatus) + length (renamed dirtyStatus)
               + length (modified dirtyStatus)"
    by (simp add: dirtyStatus_def)
  have d: "statusResult (world0\<lparr>statusResult := Some deletedStatus\<rparr>) = Some deletedStatus" by simp
  have e: "not_added deletedStatus = []" "renamed deletedStatus = []" "modified deletedStatus = []"
    by (simp_all add: deletedStatus_def)
  have f: "versionFile world0 = Some (lit ''4.1.2.9'')" by (simp add: world0_def)
  have g: "length (not_added dirtyStatus) + length (renamed dirtyStatus)
               + length (modified dirtyStatus) = 2"
    by (simp add: dirtyStatus_def)
  from dirty_tree_guard [of world0 1 0 dirtyStatus] a
  have 1: "main 1 0 world0 =
       proceed 1 0
         (world0\<lparr>stderr := stderr world0 @ [ConsoleError (lit ''Failed to get unchanged file count:'')
                                              (Some StatusFailed)]\<rparr>)"
    by blast
  from dirty_tree_guard [of "world0\<lparr>statusResult := Some dirtyStatus\<rparr>" 1 0 dirtyStatus] b c
  have 2: "getUnchangedFileCount (world0\<lparr>statusResult := Some dirtyStatus\<rparr>) =
          (Inr (int (length (not_added dirtyStatus) + length (renamed dirtyStatus)
                     + length (modified dirtyStatus))), world0\<lparr>statusResult := Some dirtyStatus\<rparr>)"
    and 3: "main 1 0 (world0\<lparr>statusResult := Some dirtyStatus\<rparr>) =
          (Inr (), world0\<lparr>statusResult := Some dirtyStatus,
             stderr := stderr (world0\<lparr>statusResult := Some dirtyStatus\<rparr>) @
             [ConsoleError
                (lit ''There are ''
                 @ toString (Fin (of_int (int (length (not_added dirtyStatus) + length (renamed dirtyStatus)
                                               + length (modified dirtyStatus)))))
                 @ lit '' unchanged files. Please commit or stash them before proceeding.'')
                None]\<rparr>)"
    by blast+
  from dirty_tree_guard [of "world0\<lparr>statusResult := Some deletedStatus\<rparr>" 1 0 deletedStatus] d e
  have 4: "main 1 0 (world0\<lparr>statusResult := Some deletedStatus\<rparr>)
       = proceed 1 0 (world0\<lparr>statusResult := Some deletedStatus\<rparr>)"
    by blast
  from 2 g have 5: "fst (getUnchangedFileCount (world0\<lparr>statusResult := Some dirtyStatus\<rparr>)) = Inr 2"
    by simp
  from 3 f have 6: "versionFile (snd (main 1 0 (world0\<lparr>statusResult := Some dirtyStatus\<rparr>)))
       = Some (lit ''4.1.2.9'')"
    by simp
  from a b c d e 1 4 5 6 show ?thesis by blast
qed

subsection \<open>The menu\<close>

lemma menu_first_label:
  "menu d n ! 0 \<noteq> lit ''UAT release''"
  "menu d n ! 0 \<noteq> lit ''UAT start work on next release''"
  "menu d n ! 0 \<noteq> lit ''PROD release''"
  "menu d n ! 0 \<noteq> lit ''GENERATION''"
  by (simp_all add: menu_def lit_def)

lemma prompt_menu:
  "prompt (menu d n) 0 w = (Inr (menu d n ! 0), w)"
  "prompt (menu d n) (Suc 0) w = (Inr (lit ''UAT start work on next release''), w)"
  "prompt (menu d n) 2 w = (Inr (lit ''PROD release''), w)"
  "prompt (menu d n) 3 w = (Inr (lit ''GENERATION''), w)"
  by (simp_all add: prompt_def ret_def menu_def)

lemma labels_distinct:
  "lit ''PROD release'' \<noteq> lit ''UAT start work on next release''"
  "lit ''GENERATION'' \<noteq> lit ''UAT start work on next release''"
  "lit ''GENERATION'' \<noteq> lit ''PROD release''"
  "lit ''UAT start work on next release'' \<noteq> lit ''UAT release''"
  "lit ''PROD release'' \<noteq> lit ''UAT release''"
  "lit ''GENERATION'' \<noteq> lit ''UAT release''"
  by (simp_all add: lit_def)

lemma read_run:
  "readCurrentVersionFromFile (w\<lparr>versionFile := Some c\<rparr>) =
     (Inr \<lparr>X = element (map Number_js (splitOn dot (trim c))) 0,
           Y = element (map Number_js (splitOn dot (trim c))) 1,
           Z = element (map Number_js (splitOn dot (trim c))) 2,
           R = element (map Number_js (splitOn dot (trim c))) 3\<rparr>, w\<lparr>versionFile := Some c\<rparr>)"
  by (simp add: readCurrentVersionFromFile_def readFileSync_def bind_def ret_def Let_def)

text \<open>
  Claim C3 at the first choice of the older script: whatever the version file holds, the
  answer of the prompt is the long label of the first choice, which equals none of the four
  strings the branches compare it with; no transition runs and nothing is written.
\<close>

theorem first_choice_runs_nothing_p0:
  "main_p0 0 tagSel (w\<lparr>versionFile := Some c\<rparr>) = (Inr (), w\<lparr>versionFile := Some c\<rparr>)"
  by (simp add: main_p0_def bind_def readCurrentVersion_eq read_run Let_def prompt_menu
      menu_first_label ret_def)

text \<open>In release.ts every choice runs its own branch.\<close>

lemma proceed_dispatch:
  assumes "readCurrentVersionFromFile w = (Inr cur, w)"
    and "findBiggerVersion w = (Inr lv, w1)"
    and "getLatestTag w1 = (Inr lt, w1)"
  shows "proceed 0 tagSel w = uatRelease cur lt lv (versionText cur) (nextTagText cur) w1"
    and "proceed 1 tagSel w = startNextRelease cur w1"
    and "proceed 2 tagSel w = prodRelease tagSel w1"
    and "proceed 3 tagSel w = generation cur w1"
  using assms
  by (simp_all add: proceed_def bind_def Let_def prompt_menu menu_first_label [symmetric]
      labels_distinct)

subsection \<open>Moving a marker\<close>

lemma deleteRemoteTag_absent:
  assumes "m \<notin> fst ` set (localTags w)"
  shows "fst (deleteRemoteTag m w) = Inr ()"
    and "localTags (snd (deleteRemoteTag m w)) = localTags w"
    and "headCommit (snd (deleteRemoteTag m w)) = headCommit w"
  using assms
  by (simp_all add: deleteRemoteTag_def bind_def ignoreErrors_def git_push_delete_def
      git_tag_delete_def split: prod.splits)

text \<open>
  A marker that is not there locally is moved without an error, whatever origin holds and
  whether or not it can be reached; the new marker is put on HEAD, whatever the second
  argument of \<open>addTag\<close> is.
\<close>

lemma marker_move:
  assumes "m \<notin> fst ` set (localTags w)"
  shows "\<exists>w'. bind (deleteRemoteTag m) (\<lambda>_. git_addTag m ref) w = (Inr (), w')
              \<and> map_of (localTags w') m = Some (headCommit w)"
proof -
  obtain w1 where d: "deleteRemoteTag m w = (Inr (), w1)"
    using deleteRemoteTag_absent(1) [OF assms] by (cases "deleteRemoteTag m w") auto
  with deleteRemoteTag_absent(2,3) [OF assms]
  have l: "localTags w1 = localTags w" "headCommit w1 = headCommit w" by simp_all
  from assms have n: "map_of (localTags w) m = None" by (simp add: map_of_eq_None_iff)
  show ?thesis
    using assms d l n by (simp add: bind_def git_addTag_def map_add_def)
qed

text \<open>
  Claim C9 at a repository where the tag \<open>4.1.2.9\<close> is on commit 1, HEAD is commit 2 and
  there is no \<open>PRODUCTION-LATEST\<close>, locally or at origin. The PROD release of either script,
  with \<open>4.1.2.9\<close> selected, ends without an error, and the marker it creates is on commit 2,
  HEAD, not on the commit of the selected tag.
\<close>

theorem prod_marker_on_head:
  "map_of (localTags world0) (lit ''4.1.2.9'') = Some 1
   \<and> headCommit world0 = 2
   \<and> map_of (localTags world0) (lit ''PRODUCTION-LATEST'') = None
   \<and> map_of (remoteTags world0) (lit ''PRODUCTION-LATEST'') = None
   \<and> prodRelease 0 world0 =
       (Inr (), world0\<lparr>localTags := [(lit ''4.1.2.9'', 1), (lit ''PRODUCTION-LATEST'', 2),
                                     (lit ''4.1.2.PRODUCTION'', 2)],
                       remoteTags := [(lit ''4.1.2.9'', 1), (lit ''PRODUCTION-LATEST'', 2),
                                      (lit ''4.1.2.PRODUCTION'', 2)]\<rparr>)
   \<and> prodRelease_p0 0 world0 =
       (Inr (), world0\<lparr>localTags := [(lit ''4.1.2.9'', 1), (lit ''PRODUCTION-LATEST'', 2),
                                     (lit ''4.1.2.PRODUCTION'', 2)],
                       remoteTags := [(lit ''4.1.2.9'', 1), (lit ''PRODUCTION-LATEST'', 2),
                                      (lit ''4.1.2.PRODUCTION'', 2)]\<rparr>)"
proof -
  have v: "isVersionTag (lit ''4.1.2.9'')"
    by (simp add: isVersionTag_def lit_def dot_def isDigit_def)
  have p: "prodTagOf (lit ''4.1.2.9'') = lit ''4.1.2.PRODUCTION''"
    by (simp add: prodTagOf_def lit_def dot_def)
  have ne: "lit ''PRODUCTION-LATEST'' \<noteq> lit ''4.1.2.9''"
    "lit ''4.1.2.PRODUCTION'' \<noteq> lit ''4.1.2.9''"
    "lit ''4.1.2.PRODUCTION'' \<noteq> lit ''PRODUCTION-LATEST''"
    "lit ''4.1.2.9'' \<noteq> lit ''PRODUCTION-LATEST''"
    "lit ''4.1.2.9'' \<noteq> lit ''4.1.2.PRODUCTION''"
    "lit ''PRODUCTION-LATEST'' \<noteq> lit ''4.1.2.PRODUCTION''"
    by (simp_all add: lit_def)
  have a: "prodRelease 0 world0 =
       (Inr (), world0\<lparr>localTags := [(lit ''4.1.2.9'', 1), (lit ''PRODUCTION-LATEST'', 2),
                                     (lit ''4.1.2.PRODUCTION'', 2)],
                       remoteTags := [(lit ''4.1.2.9'', 1), (lit ''PRODUCTION-LATEST'', 2),
                                      (lit ''4.1.2.PRODUCTION'', 2)]\<rparr>)"
    by (simp add: prodRelease_def getAllTags_run bind_def world0_def v p ne prompt_def ret_def
        deleteRemoteTag_def ignoreErrors_def git_push_delete_def git_tag_delete_def
        git_addTag_def git_pushTags_def)
  have b: "prodRelease_p0 0 world0 =
       (Inr (), world0\<lparr>localTags := [(lit ''4.1.2.9'', 1), (lit ''PRODUCTION-LATEST'', 2),
                                     (lit ''4.1.2.PRODUCTION'', 2)],
                       remoteTags := [(lit ''4.1.2.9'', 1), (lit ''PRODUCTION-LATEST'', 2),
                                      (lit ''4.1.2.PRODUCTION'', 2)]\<rparr>)"
    by (simp add: prodRelease_p0_def getAllTags_p0_def git_tags_def bind_def world0_def v p ne
        prompt_def ret_def deleteRemoteTag_def ignoreErrors_def git_push_delete_def
        git_tag_delete_def git_addTag_def git_pushTags_def)
  have c: "map_of (localTags world0) (lit ''4.1.2.9'') = Some 1" "headCommit world0 = 2"
    "map_of (localTags world0) (lit ''PRODUCTION-LATEST'') = None"
    "map_of (remoteTags world0) (lit ''PRODUCTION-LATEST'') = None"
    by (simp_all add: world0_def ne)
  from a b c show ?thesis by simp
qed

subsection \<open>The order of the tag list\<close>

lemma joinWith_Cons: "joinWith sep ((c # p) # ps) = c # joinWith sep (p # ps)"
  by (cases ps) simp_all

lemma splitOn_nonempty: "splitOn sep s \<noteq> []"
  by (induction s) (auto split: list.splits)

lemma joinWith_splitOn: "joinWith sep (splitOn sep s) = s"
proof (induction s)
  case Nil
  show ?case by simp
next
  case (Cons c cs)
  obtain p ps where s: "splitOn sep cs = p # ps"
    using splitOn_nonempty [of sep cs] by (cases "splitOn sep cs") auto
  with Cons show ?case by (simp add: joinWith_Cons)
qed

lemma versionTag_parts:
  assumes "isVersionTag t"
  obtains a b c d where "t = a @ dot # b @ dot # c @ dot # d"
    and "a \<noteq> []" "b \<noteq> []" "c \<noteq> []" "d \<noteq> []"
    and "list_all isDigit a" "list_all isDigit b" "list_all isDigit c" "list_all isDigit d"
proof -
  from assms have l: "length (splitOn dot t) = 4"
    and p: "list_all (\<lambda>p. p \<noteq> [] \<and> list_all isDigit p) (splitOn dot t)"
    by (simp_all add: isVersionTag_def Let_def)
  from l obtain a b c d where s: "splitOn dot t = [a, b, c, d]"
    by (auto simp: length_Suc_conv numeral_eq_Suc)
  have "t = joinWith dot (splitOn dot t)" by (simp add: joinWith_splitOn)
  with s have "t = a @ dot # b @ dot # c @ dot # d" by simp
  with p s that show thesis by simp
qed

lemma digits_no_dot: "list_all isDigit p \<Longrightarrow> dot \<notin> set p"
  using isDigit_not_dot by (auto simp: list_all_iff)

lemma versionKey_parts:
  assumes "list_all isDigit a" "list_all isDigit b" "list_all isDigit c" "list_all isDigit d"
  shows "versionKey (a @ dot # b @ dot # c @ dot # d)
           = (digitsValue 10 a, digitsValue 10 b, digitsValue 10 c, digitsValue 10 d)"
  using assms by (simp add: versionKey_def splitOn_append splitOn_no_sep digits_no_dot)

lemma pieces_digits:
  "p \<noteq> [] \<Longrightarrow> list_all isDigit p \<Longrightarrow>
   pieces acc (p @ r) =
     pieces (Some (foldl (\<lambda>n c. 10 * n + digitVal c) (case acc of None \<Rightarrow> 0 | Some n \<Rightarrow> n) p)) r"
proof (induction p arbitrary: acc)
  case Nil
  then show ?case by simp
next
  case (Cons c p)
  show ?case
  proof (cases "p = []")
    case True
    with Cons.prems show ?thesis by simp
  next
    case False
    with Cons.prems Cons.IH [of "Some (10 * (case acc of None \<Rightarrow> 0 | Some n \<Rightarrow> n) + digitVal c)"]
    show ?thesis by simp
  qed
qed

lemma pieces_run_dot:
  assumes "p \<noteq> []" "list_all isDigit p"
  shows "pieces None (p @ dot # r) = Digits (digitsValue 10 p) # Unit dot # pieces None r"
proof -
  have "\<not> isDigit dot" by (simp add: isDigit_def dot_def)
  with assms show ?thesis by (simp add: pieces_digits digitsValue_def)
qed

lemma pieces_run_end:
  assumes "p \<noteq> []" "list_all isDigit p"
  shows "pieces None p = [Digits (digitsValue 10 p)]"
  using pieces_digits [OF assms, of None "[]"] by (simp add: digitsValue_def)

lemma pieces_versionTag:
  assumes "a \<noteq> []" "b \<noteq> []" "c \<noteq> []" "d \<noteq> []"
    and "list_all isDigit a" "list_all isDigit b" "list_all isDigit c" "list_all isDigit d"
  shows "pieces None (a @ dot # b @ dot # c @ dot # d)
           = [Digits (digitsValue 10 a), Unit dot, Digits (digitsValue 10 b), Unit dot,
              Digits (digitsValue 10 c), Unit dot, Digits (digitsValue 10 d)]"
  using assms by (simp add: pieces_run_dot pieces_run_end)

text \<open>On version tags the collation is the comparison of the four integers.\<close>

lemma localeCompare_versionTags:
  assumes "isVersionTag s" and "isVersionTag t"
  shows "localeCompare s t =
           (if versionKey s < versionKey t then - 1
            else if versionKey t < versionKey s then 1 else 0)"
proof -
  from assms(1) obtain a b c d where s: "s = a @ dot # b @ dot # c @ dot # d"
    and sn: "a \<noteq> []" "b \<noteq> []" "c \<noteq> []" "d \<noteq> []"
    and sd: "list_all isDigit a" "list_all isDigit b" "list_all isDigit c" "list_all isDigit d"
    by (rule versionTag_parts)
  from assms(2) obtain a' b' c' d' where t: "t = a' @ dot # b' @ dot # c' @ dot # d'"
    and tn: "a' \<noteq> []" "b' \<noteq> []" "c' \<noteq> []" "d' \<noteq> []"
    and td: "list_all isDigit a'" "list_all isDigit b'" "list_all isDigit c'" "list_all isDigit d'"
    by (rule versionTag_parts)
  show ?thesis
    unfolding s t localeCompare_def pieces_versionTag [OF sn sd] pieces_versionTag [OF tn td]
      versionKey_parts [OF sd] versionKey_parts [OF td]
    by (auto simp: less_prod_def less_eq_prod_def)
qed

lemma before_iff:
  assumes "isVersionTag s" and "isVersionTag t"
  shows "localeCompare t s \<le> 0 \<longleftrightarrow> versionKey t \<le> versionKey s"
  using localeCompare_versionTags [OF assms(2) assms(1)] by auto

lemma set_insertBy: "set (insertBy cmp x ys) = insert x (set ys)"
  by (induction ys) auto

lemma mset_insertBy: "mset (insertBy cmp x ys) = add_mset x (mset ys)"
  by (induction ys) auto

lemma mset_sortBy: "mset (sortBy cmp xs) = mset xs"
  by (induction xs) (simp_all add: mset_insertBy)

lemma set_sortBy: "set (sortBy cmp xs) = set xs"
  by (induction xs) (simp_all add: set_insertBy)

lemma sorted_insertBy:
  assumes "isVersionTag x" and "\<forall>y\<in>set ys. isVersionTag y"
    and "sorted_wrt (\<lambda>a b. versionKey b \<le> versionKey a) ys"
  shows "sorted_wrt (\<lambda>a b. versionKey b \<le> versionKey a) (insertBy (\<lambda>a b. localeCompare b a) x ys)"
  using assms
proof (induction ys)
  case Nil
  then show ?case by simp
next
  case (Cons y ys)
  then have y: "isVersionTag y" by simp
  show ?case
  proof (cases "localeCompare y x \<le> 0")
    case True
    then have "versionKey y \<le> versionKey x"
      using before_iff [OF Cons.prems(1) y] by simp
    moreover have "\<forall>z\<in>set ys. versionKey z \<le> versionKey y" using Cons.prems(3) by simp
    ultimately have "\<forall>z\<in>set (y # ys). versionKey z \<le> versionKey x" by auto
    with True Cons.prems(3) show ?thesis by simp
  next
    case False
    then have "\<not> versionKey y \<le> versionKey x"
      using before_iff [OF Cons.prems(1) y] by simp
    then have "versionKey x \<le> versionKey y" by simp
    with False Cons show ?thesis by (simp add: set_insertBy)
  qed
qed

lemma sorted_sortBy:
  assumes "\<forall>y\<in>set xs. isVersionTag y"
  shows "sorted_wrt (\<lambda>a b. versionKey b \<le> versionKey a) (sortBy (\<lambda>a b. localeCompare b a) xs)"
  using assms
proof (induction xs)
  case Nil
  show ?case by simp
next
  case (Cons x xs)
  then show ?case by (simp add: sorted_insertBy set_sortBy)
qed

lemma strictly_sorted:
  "sorted_wrt (\<lambda>a b. versionKey b \<le> versionKey a) ts \<Longrightarrow> distinct (map versionKey ts) \<Longrightarrow>
   sorted_wrt (\<lambda>a b. versionKey b < versionKey a) ts"
proof (induction ts)
  case Nil
  show ?case by simp
next
  case (Cons t ts)
  have "\<forall>x\<in>set ts. versionKey x < versionKey t"
  proof
    fix x assume x: "x \<in> set ts"
    with Cons.prems(1) have "versionKey x \<le> versionKey t" by simp
    moreover from x have "versionKey x \<in> versionKey ` set ts" by (rule imageI)
    with Cons.prems(2) have "versionKey x \<noteq> versionKey t" by (metis distinct.simps(2) list.simps(9) set_map)
    ultimately show "versionKey x < versionKey t" by simp
  qed
  with Cons show ?case by simp
qed

lemma tagList_sorted:
  "sorted_wrt (\<lambda>a b. versionKey b \<le> versionKey a)
     (sortBy (\<lambda>a b. localeCompare b a) (filter isVersionTag all))"
  by (rule sorted_sortBy) simp

text \<open>
  Claim C4, as the code has it. The tag list of release.ts, which is also the list the PROD
  branch of the older script builds from its unsorted one, holds the local tags of the
  4-integer pattern, each once, in descending order of (X, Y, Z, R) compared as integers;
  the order is strict when no two of the tags stand for the same four integers.
\<close>

theorem tags_descending:
  "\<exists>ts. getAllTags w = (Inr ts, w)
      \<and> (\<exists>us. getAllTags_p0 w = (Inr us, w) \<and> sortBy (\<lambda>a b. localeCompare b a) us = ts)
      \<and> mset ts = mset (filter isVersionTag (map fst (localTags w)))
      \<and> sorted_wrt (\<lambda>a b. versionKey b \<le> versionKey a) ts
      \<and> (distinct (map versionKey ts) \<longrightarrow> sorted_wrt (\<lambda>a b. versionKey b < versionKey a) ts)"
  by (simp add: getAllTags_run getAllTags_p0_def bind_def git_tags_def ret_def mset_sortBy
      tagList_sorted strictly_sorted)

lemma getAllTags_worldTen:
  "getAllTags worldTen = (Inr [lit ''4.1.2.10'', lit ''4.1.2.9''], worldTen)"
  by (simp add: getAllTags_run worldTen_def isVersionTag_def lit_def dot_def isDigit_def
      localeCompare_def digitVal_def)

theorem tags_descending_witness:
  "getAllTags worldTen = (Inr [lit ''4.1.2.10'', lit ''4.1.2.9''], worldTen)
   \<and> distinct (map versionKey [lit ''4.1.2.10'', lit ''4.1.2.9''])
   \<and> versionKey (lit ''4.1.2.9'') < versionKey (lit ''4.1.2.10'')"
proof -
  have k: "versionKey (lit ''4.1.2.9'') = (4, 1, 2, 9)" "versionKey (lit ''4.1.2.10'') = (4, 1, 2, 10)"
    by (simp_all add: versionKey_def lit_def dot_def digitsValue_def digitVal_def)
  then have d: "distinct (map versionKey [lit ''4.1.2.10'', lit ''4.1.2.9''])" by simp
  from tags_descending [of worldTen] obtain ts where
    "getAllTags worldTen = (Inr ts, worldTen)"
    "distinct (map versionKey ts) \<longrightarrow> sorted_wrt (\<lambda>a b. versionKey b < versionKey a) ts"
    by blast
  with getAllTags_worldTen d
  have "sorted_wrt (\<lambda>a b. versionKey b < versionKey a) [lit ''4.1.2.10'', lit ''4.1.2.9'']"
    by simp
  then have "versionKey (lit ''4.1.2.9'') < versionKey (lit ''4.1.2.10'')" by simp
  with getAllTags_worldTen d show ?thesis by simp
qed

text \<open>
  Claim C4 as stated fails: \<open>4.1.2.9\<close> and \<open>4.1.2.09\<close> are two tags of the pattern that stand
  for the same four integers; both are listed, so the list is not strictly descending.
\<close>

theorem tags_descending_counterexample:
  "isVersionTag (lit ''4.1.2.9'') \<and> isVersionTag (lit ''4.1.2.09'')
   \<and> lit ''4.1.2.9'' \<noteq> lit ''4.1.2.09''
   \<and> getAllTags worldZeros = (Inr [lit ''4.1.2.9'', lit ''4.1.2.09''], worldZeros)
   \<and> versionKey (lit ''4.1.2.9'') = versionKey (lit ''4.1.2.09'')"
  by (simp add: getAllTags_run worldZeros_def isVersionTag_def lit_def dot_def isDigit_def
      localeCompare_def digitVal_def versionKey_def digitsValue_def)

subsection \<open>The UAT release\<close>

lemma preserves_bind:
  assumes "preserves f m" and "\<And>x. preserves f (g x)"
  shows "preserves f (bind m g)"
proof -
  have "f (snd (bind m g w)) = f w" for w
  proof (cases "m w")
    case (Pair r w')
    with assms(1) have w': "f w' = f w" by (auto simp: preserves_def dest: spec [of _ w])
    show ?thesis
    proof (cases r)
      case (Inl e)
      with Pair w' show ?thesis by (simp add: bind_def)
    next
      case (Inr x)
      with Pair w' assms(2) [of x] show ?thesis by (simp add: bind_def preserves_def)
    qed
  qed
  then show ?thesis by (simp add: preserves_def)
qed

lemma preserves_ret: "preserves f (ret x)"
  by (simp add: preserves_def ret_def)

lemma preserves_ignoreErrors: "preserves f m \<Longrightarrow> preserves f (ignoreErrors m)"
  by (simp add: preserves_def ignoreErrors_def)

lemma preserves_if: "preserves f m \<Longrightarrow> preserves f n \<Longrightarrow> preserves f (if b then m else n)"
  by simp

lemma versionFile_git:
  "preserves versionFile git_tags"
  "preserves versionFile (git_addTag name ref)"
  "preserves versionFile (git_push_delete tag)"
  "preserves versionFile (git_tag_delete tag)"
  "preserves versionFile git_pushTags"
  "preserves versionFile (git_log fromTag)"
  "preserves versionFile (git_add ps)"
  "preserves versionFile (git_commit msg)"
  "preserves versionFile (consoleWarn msg)"
  "preserves versionFile (updateChangelog version logLines)"
  by (simp_all add: preserves_def git_tags_def git_addTag_def git_push_delete_def
      git_tag_delete_def git_pushTags_def git_log_def git_add_def git_commit_def consoleWarn_def
      updateChangelog_def Let_def split: option.splits)

lemma versionFile_getAllTags: "preserves versionFile getAllTags"
  by (simp add: preserves_def getAllTags_run)

lemma versionFile_getChangelogSince: "preserves versionFile (getChangelogSince fromTag)"
  unfolding getChangelogSince_def tagExists_def
  by (intro preserves_bind preserves_if preserves_ret versionFile_git versionFile_getAllTags)

lemma versionFile_getChangelogSince_p0: "preserves versionFile (getChangelogSince_p0 fromTag)"
  unfolding getChangelogSince_p0_def
  by (intro preserves_bind preserves_ret versionFile_git)

lemma versionFile_deleteRemoteTag: "preserves versionFile (deleteRemoteTag tag)"
  unfolding deleteRemoteTag_def
  by (intro preserves_bind preserves_ignoreErrors versionFile_git)

lemma versionFile_updateChangelogAndCommitIt:
  "preserves versionFile (updateChangelogAndCommitIt version logLines)"
  unfolding updateChangelogAndCommitIt_def
  by (intro preserves_bind versionFile_git)

text \<open>
  Both branches write the version file first, with the revision incremented, and nothing
  after that writes it again, whether the branch ends normally, early or with an error.
\<close>

lemma uatRelease_versionFile:
  "versionFile (snd (uatRelease cur lt lv cvs nt w))
     = Some (versionText (cur\<lparr>R := increment (R cur)\<rparr>))"
proof -
  have "preserves versionFile
     (bind (getChangelogSince (orElse lt (orElse lv cvs)))
       (\<lambda>logs.
         if length logs = 0 then ret ()
         else
           bind (updateChangelogAndCommitIt nt logs) (\<lambda>_.
           bind (git_addTag nt None) (\<lambda>_.
           bind (deleteRemoteTag (lit ''UAT-LATEST'')) (\<lambda>_.
           bind (git_addTag (lit ''UAT-LATEST'') None) (\<lambda>_.
             git_pushTags))))))"
    by (intro preserves_bind preserves_if preserves_ret versionFile_git
        versionFile_getChangelogSince versionFile_deleteRemoteTag
        versionFile_updateChangelogAndCommitIt)
  then show ?thesis
    by (simp add: uatRelease_def bind_def [of "writeVersionIntoFile _"] writeVersionIntoFile_def
        preserves_def)
qed

lemma uatRelease_p0_versionFile:
  "versionFile (snd (uatRelease_p0 cur ct nt w))
     = Some (versionText (cur\<lparr>R := increment (R cur)\<rparr>))"
proof -
  have "preserves versionFile
     (bind (getChangelogSince_p0 ct) (\<lambda>logs.
      bind (git_addTag nt None) (\<lambda>_.
      bind git_pushTags (\<lambda>_.
        updateChangelog nt logs))))"
    by (intro preserves_bind versionFile_git versionFile_getChangelogSince_p0)
  then show ?thesis
    by (simp add: uatRelease_p0_def bind_def [of "writeVersion _"] writeVersion_def
        preserves_def)
qed

lemma increment_nat: "r < 2 ^ 53 \<Longrightarrow> increment (Fin (of_nat r)) = Fin (of_nat (r + 1))"
proof -
  assume "r < 2 ^ 53"
  then have "r + 1 \<le> 2 ^ 53" by simp
  then have "roundDouble (of_nat (r + 1)) = Fin (of_nat (r + 1))" by (rule roundDouble_nat)
  then show ?thesis by (simp add: increment_def add.commute)
qed

lemma incremented_text:
  assumes "x \<le> 2 ^ 53" and "y \<le> 2 ^ 53" and "z \<le> 2 ^ 53" and "r < 2 ^ 53"
  shows "versionText (\<lparr>X = Fin (of_nat x), Y = Fin (of_nat y), Z = Fin (of_nat z),
                        R = Fin (of_nat r)\<rparr>\<lparr>R := increment (Fin (of_nat r))\<rparr>)
           = serialized x y z (r + 1)"
proof -
  from assms(4) have "r + 1 \<le> 2 ^ 53" by simp
  with assms(1-3) have "versionText \<lparr>X = Fin (of_nat x), Y = Fin (of_nat y), Z = Fin (of_nat z),
                        R = Fin (of_nat (r + 1))\<rparr> = serialized x y z (r + 1)"
    by (intro versionText_nat)
  with assms(4) show ?thesis by (simp add: increment_nat del: of_nat_add of_nat_Suc)
qed

lemma read_serialized_nat:
  assumes "x \<le> 2 ^ 53" and "y \<le> 2 ^ 53" and "z \<le> 2 ^ 53" and "r \<le> 2 ^ 53"
  shows "readCurrentVersionFromFile (w\<lparr>versionFile := Some (serialized x y z r)\<rparr>) =
     (Inr \<lparr>X = Fin (of_nat x), Y = Fin (of_nat y), Z = Fin (of_nat z), R = Fin (of_nat r)\<rparr>,
      w\<lparr>versionFile := Some (serialized x y z r)\<rparr>)"
  using assms by (simp add: read_serialized roundDouble_nat)

text \<open>
  Claim C8, as the code has it. From a version file that holds X.Y.Z.R with X, Y, Z at most
  \<open>2^53\<close> and R below \<open>2^53\<close>, the UAT release branch of either script, run on the Version
  read from that file, leaves X.Y.Z.(R+1) in the version file, however the branch ends.
\<close>

theorem uat_release_increments:
  assumes "x \<le> 2 ^ 53" and "y \<le> 2 ^ 53" and "z \<le> 2 ^ 53" and "r < 2 ^ 53"
  shows "versionFile (snd (bind readCurrentVersionFromFile
                             (\<lambda>cur. uatRelease cur lt lv (versionText cur) (nextTagText cur))
                             (w\<lparr>versionFile := Some (serialized x y z r)\<rparr>)))
           = Some (serialized x y z (r + 1))
       \<and> versionFile (snd (bind readCurrentVersion
                             (\<lambda>cur. uatRelease_p0 cur (versionText cur) (nextTagText cur))
                             (w\<lparr>versionFile := Some (serialized x y z r)\<rparr>)))
           = Some (serialized x y z (r + 1))"
proof -
  from assms(4) have r: "r \<le> 2 ^ 53" by simp
  show ?thesis
    using incremented_text [OF assms]
    by (simp add: bind_def [of readCurrentVersionFromFile] readCurrentVersion_eq
        read_serialized_nat [OF assms(1-3) r] uatRelease_versionFile uatRelease_p0_versionFile
        del: of_nat_add of_nat_Suc)
qed

theorem uat_release_increments_witness:
  "(4::nat) \<le> 2 ^ 53 \<and> (1::nat) \<le> 2 ^ 53 \<and> (2::nat) \<le> 2 ^ 53 \<and> (9::nat) < 2 ^ 53
   \<and> versionFile (snd (bind readCurrentVersionFromFile
                          (\<lambda>cur. uatRelease cur (Some (lit ''4.1.2.9'')) None (versionText cur)
                                   (nextTagText cur))
                          (world0\<lparr>versionFile := Some (serialized 4 1 2 9)\<rparr>)))
       = Some (serialized 4 1 2 10)"
  using uat_release_increments [of 4 1 2 9 "Some (lit ''4.1.2.9'')" None world0] by simp

text \<open>
  Claim C8 as stated fails at R = \<open>2^53\<close>: \<open>R++\<close> is an addition of doubles, and
  \<open>9007199254740992 + 1\<close> is \<open>9007199254740992\<close>. The file is rewritten with the same
  revision.
\<close>

theorem uat_release_increments_counterexample:
  "versionFile (snd (uatRelease \<lparr>X = Fin 4, Y = Fin 1, Z = Fin 2, R = Fin 9007199254740992\<rparr>
                       (Some (lit ''4.1.2.9'')) None (serialized 4 1 2 9007199254740992)
                       (serialized 4 1 2 9007199254740992) world0))
     = Some (serialized 4 1 2 9007199254740992)
   \<and> serialized 4 1 2 9007199254740992 \<noteq> serialized 4 1 2 9007199254740993"
proof -
  have i: "increment (Fin 9007199254740992) = Fin 9007199254740992"
    using roundDouble_ex by (simp add: increment_def)
  have "versionText \<lparr>X = Fin (of_nat 4), Y = Fin (of_nat 1), Z = Fin (of_nat 2),
                        R = Fin (of_nat 9007199254740992)\<rparr> = serialized 4 1 2 9007199254740992"
    by (intro versionText_nat) simp_all
  then have t: "versionText \<lparr>X = Fin 4, Y = Fin 1, Z = Fin 2, R = Fin 9007199254740992\<rparr>
                  = serialized 4 1 2 9007199254740992"
    by simp
  have "versionFile (snd (uatRelease \<lparr>X = Fin 4, Y = Fin 1, Z = Fin 2, R = Fin 9007199254740992\<rparr>
                       (Some (lit ''4.1.2.9'')) None (serialized 4 1 2 9007199254740992)
                       (serialized 4 1 2 9007199254740992) world0))
     = Some (serialized 4 1 2 9007199254740992)"
    by (simp add: uatRelease_versionFile i t)
  moreover have "serialized 4 1 2 9007199254740992 \<noteq> serialized 4 1 2 9007199254740993"
  proof
    assume "serialized 4 1 2 9007199254740992 = serialized 4 1 2 9007199254740993"
    then have "decimal 9007199254740992 = decimal 9007199254740993"
      by (simp add: serialized_def)
    then have "(9007199254740992::nat) = 9007199254740993" by (rule decimal_inj)
    then show False by simp
  qed
  ultimately show ?thesis by simp
qed

subsection \<open>A UAT release with nothing to release\<close>

lemma getChangelogSince_shape:
  "\<exists>ls. getChangelogSince t w = (Inr ls, w)
        \<or> getChangelogSince t w =
            (Inr [], w\<lparr>stderr := stderr w @ [ConsoleWarn (lit ''Tag '' @ [39] @ t @ [39]
                                     @ lit '' does not exist. Skipping changelog.'')]\<rparr>)"
proof (cases "t \<in> fst ` set (localTags w)")
  case True
  then obtain c where "map_of (localTags w) t = Some c"
    by (meson domD domI map_of_eq_None_iff not_Some_eq)
  with True show ?thesis
    by (simp add: getChangelogSince_def tagExists_def bind_def git_tags_def ret_def
        getAllTags_run git_log_def)
next
  case False
  then show ?thesis by (simp add: getChangelogSince_missing)
qed

lemma getChangelogSince_versionFile:
  "getChangelogSince t (w\<lparr>versionFile := v\<rparr>) =
     (fst (getChangelogSince t w), (snd (getChangelogSince t w))\<lparr>versionFile := v\<rparr>)"
proof (cases "t \<in> fst ` set (localTags w)")
  case True
  then obtain c where "map_of (localTags w) t = Some c"
    by (meson domD domI map_of_eq_None_iff not_Some_eq)
  with True show ?thesis
    by (simp add: getChangelogSince_def tagExists_def bind_def git_tags_def ret_def
        getAllTags_run git_log_def)
next
  case False
  then show ?thesis by (simp add: getChangelogSince_missing)
qed

lemma uatRelease_nothing:
  assumes "fst (getChangelogSince (orElse lt (orElse lv cvs)) w) = Inr []"
  shows "\<exists>w'. uatRelease cur lt lv cvs nt w = (Inr (), w')
              \<and> localTags w' = localTags w \<and> remoteTags w' = remoteTags w
              \<and> changelogFile w' = changelogFile w \<and> commits w' = commits w
              \<and> headCommit w' = headCommit w
              \<and> versionFile w' = Some (versionText (cur\<lparr>R := increment (R cur)\<rparr>))"
proof -
  let ?t = "orElse lt (orElse lv cvs)"
  let ?v = "Some (versionText (cur\<lparr>R := increment (R cur)\<rparr>))"
  from getChangelogSince_shape [of ?t w] assms
  have "getChangelogSince ?t w = (Inr [], w)
        \<or> getChangelogSince ?t w =
            (Inr [], w\<lparr>stderr := stderr w @ [ConsoleWarn (lit ''Tag '' @ [39] @ ?t @ [39]
                                     @ lit '' does not exist. Skipping changelog.'')]\<rparr>)"
    by auto
  then show ?thesis
  proof
    assume "getChangelogSince ?t w = (Inr [], w)"
    then show ?thesis
      by (simp add: uatRelease_def bind_def writeVersionIntoFile_def
          getChangelogSince_versionFile ret_def)
  next
    assume "getChangelogSince ?t w =
            (Inr [], w\<lparr>stderr := stderr w @ [ConsoleWarn (lit ''Tag '' @ [39] @ ?t @ [39]
                                     @ lit '' does not exist. Skipping changelog.'')]\<rparr>)"
    then show ?thesis
      by (simp add: uatRelease_def bind_def writeVersionIntoFile_def
          getChangelogSince_versionFile ret_def)
  qed
qed

text \<open>
  Claim C2, as the code of release.ts has it. In a UAT release from a Version X, Y, Z, R
  with X, Y, Z at most \<open>2^53\<close> and R below \<open>2^53\<close>, when the commit query yields no
  qualifying subject, the branch ends normally with the tags (local and at origin), the
  changelog, the commits and HEAD as they were, and X.Y.Z.(R+1) in the version file.
\<close>

theorem uat_nothing_to_release:
  assumes "x \<le> 2 ^ 53" and "y \<le> 2 ^ 53" and "z \<le> 2 ^ 53" and "r < 2 ^ 53"
    and "fst (getChangelogSince (orElse lt (orElse lv cvs)) w) = Inr []"
  shows "\<exists>w'. uatRelease \<lparr>X = Fin (of_nat x), Y = Fin (of_nat y), Z = Fin (of_nat z),
                          R = Fin (of_nat r)\<rparr> lt lv cvs nt w = (Inr (), w')
              \<and> localTags w' = localTags w \<and> remoteTags w' = remoteTags w
              \<and> changelogFile w' = changelogFile w \<and> commits w' = commits w
              \<and> headCommit w' = headCommit w
              \<and> versionFile w' = Some (serialized x y z (r + 1))"
  using uatRelease_nothing [OF assms(5), of "\<lparr>X = Fin (of_nat x), Y = Fin (of_nat y),
      Z = Fin (of_nat z), R = Fin (of_nat r)\<rparr>" nt] incremented_text [OF assms(1-4)]
  by (simp del: of_nat_add of_nat_Suc)

lemma nothing_since_world0:
  "getChangelogSince (orElse (Some (lit ''4.1.2.9'')) (orElse None cvs)) world0 = (Inr [], world0)"
proof -
  have "orElse (Some (lit ''4.1.2.9'')) (orElse None cvs) = lit ''4.1.2.9''"
    by (simp add: orElse_def lit_def)
  moreover have "getChangelogSince (lit ''4.1.2.9'') world0 = (Inr [], world0)"
    by (simp add: getChangelogSince_def tagExists_def bind_def git_tags_def ret_def
        getAllTags_run git_log_def world0_def noLog_def qualifies_empty)
  ultimately show ?thesis by simp
qed

theorem uat_nothing_to_release_witness:
  "(4::nat) \<le> 2 ^ 53 \<and> (1::nat) \<le> 2 ^ 53 \<and> (2::nat) \<le> 2 ^ 53 \<and> (9::nat) < 2 ^ 53
   \<and> fst (getChangelogSince (orElse (Some (lit ''4.1.2.9'')) (orElse None (lit ''4.1.2.9''))) world0)
       = Inr []
   \<and> (\<exists>w'. uatRelease \<lparr>X = Fin (of_nat 4), Y = Fin (of_nat 1), Z = Fin (of_nat 2),
                         R = Fin (of_nat 9)\<rparr> (Some (lit ''4.1.2.9'')) None (lit ''4.1.2.9'')
               (lit ''4.1.2.10'') world0 = (Inr (), w')
            \<and> localTags w' = localTags world0 \<and> changelogFile w' = changelogFile world0
            \<and> commits w' = commits world0
            \<and> versionFile w' = Some (serialized 4 1 2 10))"
proof -
  have a: "fst (getChangelogSince (orElse (Some (lit ''4.1.2.9'')) (orElse None (lit ''4.1.2.9'')))
             world0) = Inr []"
    by (simp add: nothing_since_world0)
  from uat_nothing_to_release [of 4 1 2 9 "Some (lit ''4.1.2.9'')" None "lit ''4.1.2.9''" world0
      "lit ''4.1.2.10''"] a
  have "\<exists>w'. uatRelease \<lparr>X = Fin (of_nat 4), Y = Fin (of_nat 1), Z = Fin (of_nat 2),
                         R = Fin (of_nat 9)\<rparr> (Some (lit ''4.1.2.9'')) None (lit ''4.1.2.9'')
               (lit ''4.1.2.10'') world0 = (Inr (), w')
            \<and> localTags w' = localTags world0 \<and> changelogFile w' = changelogFile world0
            \<and> commits w' = commits world0
            \<and> versionFile w' = Some (serialized 4 1 2 10)"
    by (simp del: of_nat_numeral) blast
  with a show ?thesis by simp
qed

text \<open>
  Claim C2 as stated fails at R = \<open>2^53\<close>: with no qualifying subject the branch ends early,
  and the version file has been rewritten with the same revision, not with R + 1.
\<close>

theorem uat_nothing_to_release_counterexample:
  "fst (getChangelogSince
          (orElse (Some (lit ''4.1.2.9'')) (orElse None (serialized 4 1 2 9007199254740992)))
          world0) = Inr []
   \<and> uatRelease \<lparr>X = Fin 4, Y = Fin 1, Z = Fin 2, R = Fin 9007199254740992\<rparr>
       (Some (lit ''4.1.2.9'')) None (serialized 4 1 2 9007199254740992)
       (serialized 4 1 2 9007199254740992) world0
     = (Inr (), world0\<lparr>versionFile := Some (serialized 4 1 2 9007199254740992)\<rparr>)
   \<and> serialized 4 1 2 9007199254740992 \<noteq> serialized 4 1 2 9007199254740993"
proof -
  have i: "increment (Fin 9007199254740992) = Fin 9007199254740992"
    using roundDouble_ex by (simp add: increment_def)
  have "versionText \<lparr>X = Fin (of_nat 4), Y = Fin (of_nat 1), Z = Fin (of_nat 2),
                        R = Fin (of_nat 9007199254740992)\<rparr> = serialized 4 1 2 9007199254740992"
    by (intro versionText_nat) simp_all
  then have t: "versionText \<lparr>X = Fin 4, Y = Fin 1, Z = Fin 2, R = Fin 9007199254740992\<rparr>
                  = serialized 4 1 2 9007199254740992"
    by simp
  have a: "uatRelease \<lparr>X = Fin 4, Y = Fin 1, Z = Fin 2, R = Fin 9007199254740992\<rparr>
       (Some (lit ''4.1.2.9'')) None (serialized 4 1 2 9007199254740992)
       (serialized 4 1 2 9007199254740992) world0
     = (Inr (), world0\<lparr>versionFile := Some (serialized 4 1 2 9007199254740992)\<rparr>)"
    by (simp add: uatRelease_def bind_def writeVersionIntoFile_def getChangelogSince_versionFile
        nothing_since_world0 ret_def i t)
  have "serialized 4 1 2 9007199254740992 \<noteq> serialized 4 1 2 9007199254740993"
  proof
    assume "serialized 4 1 2 9007199254740992 = serialized 4 1 2 9007199254740993"
    then have "decimal 9007199254740992 = decimal 9007199254740993"
      by (simp add: serialized_def)
    then have "(9007199254740992::nat) = 9007199254740993" by (rule decimal_inj)
    then show False by simp
  qed
  with a show ?thesis by (simp add: nothing_since_world0)
qed

text \<open>
  The same branch of the older script has no test for an empty list: in a repository with
  nothing to release it creates and pushes the tag and writes an entry with no bullet.
\<close>

lemma uatRelease_p0_nothing:
  "fst (getChangelogSince_p0 (lit ''4.1.2.9'') world0) = Inr []"
  "uatRelease_p0 \<lparr>X = Fin 4, Y = Fin 1, Z = Fin 2, R = Fin 9\<rparr> (lit ''4.1.2.9'')
     (lit ''4.1.2.10'') world0 =
     (Inr (), world0\<lparr>versionFile := Some (lit ''4.1.2.10''),
                     localTags := [(lit ''4.1.2.9'', 1), (lit ''4.1.2.10'', 2)],
                     remoteTags := [(lit ''4.1.2.9'', 1), (lit ''4.1.2.10'', 2)],
                     changelogFile := Some (lit ''## 4.1.2.10 (2026-11-03)'' @ [10, 10, 10])\<rparr>)"
proof -
  show g: "fst (getChangelogSince_p0 (lit ''4.1.2.9'') world0) = Inr []"
    by (simp add: getChangelogSince_p0_def bind_def git_log_def ret_def world0_def noLog_def
        qualifies_empty)
  have "versionText \<lparr>X = Fin (of_nat 4), Y = Fin (of_nat 1), Z = Fin (of_nat 2),
                        R = Fin (of_nat 10)\<rparr> = serialized 4 1 2 10"
    by (intro versionText_nat) simp_all
  moreover have "serialized 4 1 2 10 = lit ''4.1.2.10''"
    by (simp add: serialized_def decimal.simps digitChar_def lit_def dot_def)
  moreover have "increment (Fin 9) = Fin 10"
    using increment_nat [of 9] by simp
  ultimately have t: "versionText \<lparr>X = Fin 4, Y = Fin 1, Z = Fin 2, R = increment (Fin 9)\<rparr>
                        = lit ''4.1.2.10''"
    by simp
  have ne: "lit ''4.1.2.10'' \<noteq> lit ''4.1.2.9''" by (simp add: lit_def)
  have d: "today (world0\<lparr>versionFile := v, localTags := l, remoteTags := m\<rparr>) = lit ''2026-11-03''"
    for v l m
    by (simp add: today_def world0_def lit_def)
  have q: "filter qualifies (splitOn newline (noLog 1)) = []"
    by (simp add: noLog_def qualifies_empty)
  show "uatRelease_p0 \<lparr>X = Fin 4, Y = Fin 1, Z = Fin 2, R = Fin 9\<rparr> (lit ''4.1.2.9'')
     (lit ''4.1.2.10'') world0 =
     (Inr (), world0\<lparr>versionFile := Some (lit ''4.1.2.10''),
                     localTags := [(lit ''4.1.2.9'', 1), (lit ''4.1.2.10'', 2)],
                     remoteTags := [(lit ''4.1.2.9'', 1), (lit ''4.1.2.10'', 2)],
                     changelogFile := Some (lit ''## 4.1.2.10 (2026-11-03)'' @ [10, 10, 10])\<rparr>)"
    by (simp add: uatRelease_p0_def bind_def writeVersion_def t getChangelogSince_p0_def
        git_log_def ret_def world0_def q ne git_addTag_def git_pushTags_def updateChangelog_def
        changelogEntry_def today_def newline_def)
      (simp add: lit_def noLog_def qualifies_empty)
qed

end
